theory Spec2Isabelle
  imports Complex_Main "HOL-Library.Monad_Syntax"
begin

section \<open>Layers of the numeric library, as the constructors record them\<close>

text \<open>
  The model-definition code builds layer objects of the numeric library and calls them.
  A layer object is modelled by the arguments its constructor was given; Python's
  unbounded integers are \<open>int\<close>. \<open>kernel_size\<close> is the side of the square kernel
  (the stem of \<open>resnet_preact\<close> writes it as the pair \<open>(3, 3)\<close>, every other call
  as \<open>3\<close>).

  Every module also carries the mode flag \<open>training\<close>, which the module's base
  constructor sets. The flag is modelled where it is read: by batch normalisation
  (\<open>bn_training\<close>) and by the block of \<open>wrn\<close>, which passes it to dropout.
\<close>

record Conv2d =
  in_channels :: int
  out_channels :: int
  kernel_size :: int
  stride :: int
  padding :: int
  bias :: bool

record BatchNorm2d =
  num_features :: int
  bn_training :: bool

record Linear =
  in_features :: int
  out_features :: int

datatype dtype = float32

section \<open>The numeric engine\<close>

text \<open>
  The numeric engine (convolution, batch normalisation, activation, ...) is an external
  collaborator. The forward functions are written against an arbitrary engine over an
  arbitrary tensor type \<open>'t\<close>. Every operation may raise; \<open>None\<close> is a raised
  exception of the engine, which the callers below never catch. A layer with parameters
  is applied under the path of its attribute names (\<open>[''stage1'', ''block1'', ''bn1'']\<close>),
  so that an engine may give every layer its own weights and buffers. The constructor
  of a layer may raise too: \<open>Conv2d_init eng c\<close> says that the constructor call that
  \<open>c\<close> records returns, and so for the other two layers.

  \<open>F_relu\<close> is called with \<open>inplace=True\<close> in the source, always on the fresh
  result of a normalisation, never on a tensor that is read again; \<open>iadd y s\<close> is
  \<open>y += s\<close> on the fresh result of a convolution or normalisation. So no tensor that is
  read later is overwritten, and the operations are modelled as functions.
\<close>

record 't engine =
  Conv2d_init :: "Conv2d \<Rightarrow> bool"
  BatchNorm2d_init :: "BatchNorm2d \<Rightarrow> bool"
  Linear_init :: "Linear \<Rightarrow> bool"
  Conv2d_forward :: "string list \<Rightarrow> Conv2d \<Rightarrow> 't \<Rightarrow> 't option"
  BatchNorm2d_forward :: "string list \<Rightarrow> BatchNorm2d \<Rightarrow> 't \<Rightarrow> 't option"
  Linear_forward :: "string list \<Rightarrow> Linear \<Rightarrow> 't \<Rightarrow> 't option"
  F_relu :: "'t \<Rightarrow> 't option"
  F_dropout :: "'t \<Rightarrow> real \<Rightarrow> bool \<Rightarrow> 't option"
  F_adaptive_avg_pool2d :: "'t \<Rightarrow> int \<Rightarrow> 't option"
  iadd :: "'t \<Rightarrow> 't \<Rightarrow> 't option"
  tensor_view :: "'t \<Rightarrow> int list \<Rightarrow> 't option"
  tensor_size :: "'t \<Rightarrow> int list"
  torch_zeros :: "int list \<Rightarrow> dtype \<Rightarrow> 't option"

section \<open>Sequential containers\<close>

text \<open>
  \<open>nn.Sequential\<close> keeps its modules in an ordered dictionary: \<open>add_module\<close> appends
  a new name at the end and replaces the module of a name that is already there; the
  forward pass feeds each module's output to the next, and an empty container returns
  its input.
\<close>

type_synonym 'm Sequential = "(string \<times> 'm) list"

fun add_module :: "string \<Rightarrow> 'm \<Rightarrow> 'm Sequential \<Rightarrow> 'm Sequential" where
  "add_module name m [] = [(name, m)]"
| "add_module name m ((k, v) # ms) =
     (if k = name then (name, m) # ms else (k, v) # add_module name m ms)"

fun Sequential_forward ::
  "(string list \<Rightarrow> 'm \<Rightarrow> 't \<Rightarrow> 't option) \<Rightarrow> string list \<Rightarrow> 'm Sequential \<Rightarrow> 't \<Rightarrow> 't option" where
  "Sequential_forward f path [] x = Some x"
| "Sequential_forward f path ((name, m) # ms) x =
     do { y \<leftarrow> f (path @ [name]) m x; Sequential_forward f path ms y }"

section \<open>resnet_preact: the residual blocks\<close>

text \<open>\<open>BasicBlock\<close> of \<open>resnet_preact.py\<close>; \<open>bn3\<close> exists only when \<open>add_last_bn\<close>.\<close>

record BasicBlock =
  bb_remove_first_relu :: bool
  bb_add_last_bn :: bool
  bb_preact :: bool
  bb_bn1 :: BatchNorm2d
  bb_conv1 :: Conv2d
  bb_bn2 :: BatchNorm2d
  bb_conv2 :: Conv2d
  bb_bn3 :: "BatchNorm2d option"
  bb_shortcut :: "Conv2d Sequential"

definition BasicBlock_init :: "int \<Rightarrow> int \<Rightarrow> int \<Rightarrow> bool \<Rightarrow> bool \<Rightarrow> bool \<Rightarrow> BasicBlock" where
  "BasicBlock_init in_ch out_ch strd remove_first_relu add_last_bn preact =
     \<lparr> bb_remove_first_relu = remove_first_relu,
       bb_add_last_bn = add_last_bn,
       bb_preact = preact,
       bb_bn1 = \<lparr> num_features = in_ch, bn_training = True \<rparr>,
       bb_conv1 = \<lparr> in_channels = in_ch, out_channels = out_ch, kernel_size = 3,
                    stride = strd, padding = 1, bias = False \<rparr>,
       bb_bn2 = \<lparr> num_features = out_ch, bn_training = True \<rparr>,
       bb_conv2 = \<lparr> in_channels = out_ch, out_channels = out_ch, kernel_size = 3,
                    stride = 1, padding = 1, bias = False \<rparr>,
       bb_bn3 = (if add_last_bn then Some \<lparr> num_features = out_ch, bn_training = True \<rparr> else None),
       bb_shortcut =
         (if in_ch \<noteq> out_ch
          then add_module ''conv''
                 \<lparr> in_channels = in_ch, out_channels = out_ch, kernel_size = 1,
                   stride = strd, padding = 0, bias = False \<rparr> []
          else []) \<rparr>"

text \<open>
  An attribute that was never set raises when it is read: \<open>bn3\<close> (\<open>bn4\<close>) without
  \<open>add_last_bn\<close>.
\<close>

definition optional_bn ::
  "'t engine \<Rightarrow> string list \<Rightarrow> BatchNorm2d option \<Rightarrow> 't \<Rightarrow> 't option" where
  "optional_bn eng path bn y =
     (case bn of None \<Rightarrow> None | Some l \<Rightarrow> BatchNorm2d_forward eng path l y)"

definition shortcut_forward :: "'t engine \<Rightarrow> string list \<Rightarrow> Conv2d Sequential \<Rightarrow> 't \<Rightarrow> 't option" where
  "shortcut_forward eng path sc x =
     Sequential_forward (Conv2d_forward eng) (path @ [''shortcut'']) sc x"

text \<open>
  \<open>BasicBlock.forward\<close>, statement by statement. The first statement leaves two
  variables: \<open>x\<close> (rebound in the \<open>preact\<close> branch only) and \<open>y\<close>.
\<close>

definition BasicBlock_forward :: "'t engine \<Rightarrow> string list \<Rightarrow> BasicBlock \<Rightarrow> 't \<Rightarrow> 't option" where
  "BasicBlock_forward eng path blk x =
     do {
       (x, y) \<leftarrow>
         (if bb_preact blk then
            do {
              n \<leftarrow> BatchNorm2d_forward eng (path @ [''bn1'']) (bb_bn1 blk) x;
              x \<leftarrow> F_relu eng n;
              y \<leftarrow> Conv2d_forward eng (path @ [''conv1'']) (bb_conv1 blk) x;
              Some (x, y)
            }
          else
            do {
              y \<leftarrow> BatchNorm2d_forward eng (path @ [''bn1'']) (bb_bn1 blk) x;
              y \<leftarrow> (if \<not> bb_remove_first_relu blk then F_relu eng y else Some y);
              y \<leftarrow> Conv2d_forward eng (path @ [''conv1'']) (bb_conv1 blk) y;
              Some (x, y)
            });
       n \<leftarrow> BatchNorm2d_forward eng (path @ [''bn2'']) (bb_bn2 blk) y;
       y \<leftarrow> F_relu eng n;
       y \<leftarrow> Conv2d_forward eng (path @ [''conv2'']) (bb_conv2 blk) y;
       y \<leftarrow> (if bb_add_last_bn blk then optional_bn eng (path @ [''bn3'']) (bb_bn3 blk) y
             else Some y);
       s \<leftarrow> shortcut_forward eng path (bb_shortcut blk) x;
       iadd eng y s
     }"

text \<open>\<open>BottleneckBlock\<close> of \<open>resnet_preact.py\<close>, with \<open>expansion = 4\<close>.\<close>

record BottleneckBlock =
  bt_remove_first_relu :: bool
  bt_add_last_bn :: bool
  bt_preact :: bool
  bt_bn1 :: BatchNorm2d
  bt_conv1 :: Conv2d
  bt_bn2 :: BatchNorm2d
  bt_conv2 :: Conv2d
  bt_bn3 :: BatchNorm2d
  bt_conv3 :: Conv2d
  bt_bn4 :: "BatchNorm2d option"
  bt_shortcut :: "Conv2d Sequential"

definition BottleneckBlock_init ::
  "int \<Rightarrow> int \<Rightarrow> int \<Rightarrow> bool \<Rightarrow> bool \<Rightarrow> bool \<Rightarrow> BottleneckBlock" where
  "BottleneckBlock_init in_ch out_ch strd remove_first_relu add_last_bn preact =
     (let bottleneck_channels = out_ch div 4 in
      \<lparr> bt_remove_first_relu = remove_first_relu,
        bt_add_last_bn = add_last_bn,
        bt_preact = preact,
        bt_bn1 = \<lparr> num_features = in_ch, bn_training = True \<rparr>,
        bt_conv1 = \<lparr> in_channels = in_ch, out_channels = bottleneck_channels, kernel_size = 1,
                     stride = 1, padding = 0, bias = False \<rparr>,
        bt_bn2 = \<lparr> num_features = bottleneck_channels, bn_training = True \<rparr>,
        bt_conv2 = \<lparr> in_channels = bottleneck_channels, out_channels = bottleneck_channels,
                     kernel_size = 3, stride = strd, padding = 1, bias = False \<rparr>,
        bt_bn3 = \<lparr> num_features = bottleneck_channels, bn_training = True \<rparr>,
        bt_conv3 = \<lparr> in_channels = bottleneck_channels, out_channels = out_ch, kernel_size = 1,
                     stride = 1, padding = 0, bias = False \<rparr>,
        bt_bn4 = (if add_last_bn then Some \<lparr> num_features = out_ch, bn_training = True \<rparr> else None),
        bt_shortcut =
          (if in_ch \<noteq> out_ch
           then add_module ''conv''
                  \<lparr> in_channels = in_ch, out_channels = out_ch, kernel_size = 1,
                    stride = strd, padding = 0, bias = False \<rparr> []
           else []) \<rparr>)"

definition BottleneckBlock_forward ::
  "'t engine \<Rightarrow> string list \<Rightarrow> BottleneckBlock \<Rightarrow> 't \<Rightarrow> 't option" where
  "BottleneckBlock_forward eng path blk x =
     do {
       (x, y) \<leftarrow>
         (if bt_preact blk then
            do {
              n \<leftarrow> BatchNorm2d_forward eng (path @ [''bn1'']) (bt_bn1 blk) x;
              x \<leftarrow> F_relu eng n;
              y \<leftarrow> Conv2d_forward eng (path @ [''conv1'']) (bt_conv1 blk) x;
              Some (x, y)
            }
          else
            do {
              y \<leftarrow> BatchNorm2d_forward eng (path @ [''bn1'']) (bt_bn1 blk) x;
              y \<leftarrow> (if \<not> bt_remove_first_relu blk then F_relu eng y else Some y);
              y \<leftarrow> Conv2d_forward eng (path @ [''conv1'']) (bt_conv1 blk) y;
              Some (x, y)
            });
       n \<leftarrow> BatchNorm2d_forward eng (path @ [''bn2'']) (bt_bn2 blk) y;
       y \<leftarrow> F_relu eng n;
       y \<leftarrow> Conv2d_forward eng (path @ [''conv2'']) (bt_conv2 blk) y;
       n \<leftarrow> BatchNorm2d_forward eng (path @ [''bn3'']) (bt_bn3 blk) y;
       y \<leftarrow> F_relu eng n;
       y \<leftarrow> Conv2d_forward eng (path @ [''conv3'']) (bt_conv3 blk) y;
       y \<leftarrow> (if bt_add_last_bn blk then optional_bn eng (path @ [''bn4'']) (bt_bn4 blk) y
             else Some y);
       s \<leftarrow> shortcut_forward eng path (bt_shortcut blk) x;
       iadd eng y s
     }"

section \<open>wrn: the residual block\<close>

text \<open>
  \<open>BasicBlock\<close> of \<open>wrn.py\<close>. \<open>drop_rate\<close> is a floating-point number of which the
  code only asks whether it is positive; \<open>training\<close> is the module's mode flag, set by
  the module's base constructor.
\<close>

record WrnBlock =
  wb_drop_rate :: real
  wb_preactivate_both :: bool
  wb_training :: bool
  wb_bn1 :: BatchNorm2d
  wb_conv1 :: Conv2d
  wb_bn2 :: BatchNorm2d
  wb_conv2 :: Conv2d
  wb_shortcut :: "Conv2d Sequential"

definition WrnBlock_init :: "int \<Rightarrow> int \<Rightarrow> int \<Rightarrow> real \<Rightarrow> WrnBlock" where
  "WrnBlock_init in_ch out_ch strd drop_rate =
     \<lparr> wb_drop_rate = drop_rate,
       wb_preactivate_both = (in_ch \<noteq> out_ch),
       wb_training = True,
       wb_bn1 = \<lparr> num_features = in_ch, bn_training = True \<rparr>,
       wb_conv1 = \<lparr> in_channels = in_ch, out_channels = out_ch, kernel_size = 3,
                    stride = strd, padding = 1, bias = False \<rparr>,
       wb_bn2 = \<lparr> num_features = out_ch, bn_training = True \<rparr>,
       wb_conv2 = \<lparr> in_channels = out_ch, out_channels = out_ch, kernel_size = 3,
                    stride = 1, padding = 1, bias = False \<rparr>,
       wb_shortcut =
         (if in_ch \<noteq> out_ch
          then add_module ''conv''
                 \<lparr> in_channels = in_ch, out_channels = out_ch, kernel_size = 1,
                   stride = strd, padding = 0, bias = False \<rparr> []
          else []) \<rparr>"

definition WrnBlock_forward :: "'t engine \<Rightarrow> string list \<Rightarrow> WrnBlock \<Rightarrow> 't \<Rightarrow> 't option" where
  "WrnBlock_forward eng path blk x =
     do {
       (x, y) \<leftarrow>
         (if wb_preactivate_both blk then
            do {
              n \<leftarrow> BatchNorm2d_forward eng (path @ [''bn1'']) (wb_bn1 blk) x;
              x \<leftarrow> F_relu eng n;
              y \<leftarrow> Conv2d_forward eng (path @ [''conv1'']) (wb_conv1 blk) x;
              Some (x, y)
            }
          else
            do {
              n \<leftarrow> BatchNorm2d_forward eng (path @ [''bn1'']) (wb_bn1 blk) x;
              y \<leftarrow> F_relu eng n;
              y \<leftarrow> Conv2d_forward eng (path @ [''conv1'']) (wb_conv1 blk) y;
              Some (x, y)
            });
       y \<leftarrow> (if wb_drop_rate blk > 0
             then F_dropout eng y (wb_drop_rate blk) (wb_training blk)
             else Some y);
       n \<leftarrow> BatchNorm2d_forward eng (path @ [''bn2'']) (wb_bn2 blk) y;
       y \<leftarrow> F_relu eng n;
       y \<leftarrow> Conv2d_forward eng (path @ [''conv2'']) (wb_conv2 blk) y;
       s \<leftarrow> shortcut_forward eng path (wb_shortcut blk) x;
       iadd eng y s
     }"

section \<open>The two paths of a block, as the specification words them\<close>

text \<open>
  The specification describes a block as a residual path and a shortcut path that are
  merged by addition. These definitions follow its words; the theorems below compare
  them with the forward functions translated from the source.
\<close>

definition BasicBlock_residual_path ::
  "'t engine \<Rightarrow> string list \<Rightarrow> BasicBlock \<Rightarrow> 't \<Rightarrow> 't option" where
  "BasicBlock_residual_path eng path blk u =
     do {
       c \<leftarrow> Conv2d_forward eng (path @ [''conv1'']) (bb_conv1 blk) u;
       n \<leftarrow> BatchNorm2d_forward eng (path @ [''bn2'']) (bb_bn2 blk) c;
       a \<leftarrow> F_relu eng n;
       c \<leftarrow> Conv2d_forward eng (path @ [''conv2'']) (bb_conv2 blk) a;
       if bb_add_last_bn blk then optional_bn eng (path @ [''bn3'']) (bb_bn3 blk) c else Some c
     }"

definition BottleneckBlock_residual_path ::
  "'t engine \<Rightarrow> string list \<Rightarrow> BottleneckBlock \<Rightarrow> 't \<Rightarrow> 't option" where
  "BottleneckBlock_residual_path eng path blk u =
     do {
       c \<leftarrow> Conv2d_forward eng (path @ [''conv1'']) (bt_conv1 blk) u;
       n \<leftarrow> BatchNorm2d_forward eng (path @ [''bn2'']) (bt_bn2 blk) c;
       a \<leftarrow> F_relu eng n;
       c \<leftarrow> Conv2d_forward eng (path @ [''conv2'']) (bt_conv2 blk) a;
       n \<leftarrow> BatchNorm2d_forward eng (path @ [''bn3'']) (bt_bn3 blk) c;
       a \<leftarrow> F_relu eng n;
       c \<leftarrow> Conv2d_forward eng (path @ [''conv3'']) (bt_conv3 blk) a;
       if bt_add_last_bn blk then optional_bn eng (path @ [''bn4'']) (bt_bn4 blk) c else Some c
     }"

text \<open>
  The residual path of the \<open>wrn\<close> block after its first convolution: dropout when the
  rate is positive, then normalisation, activation and the second convolution.
\<close>

definition WrnBlock_after_conv1 ::
  "'t engine \<Rightarrow> string list \<Rightarrow> WrnBlock \<Rightarrow> 't \<Rightarrow> 't option" where
  "WrnBlock_after_conv1 eng path blk c =
     do {
       d \<leftarrow> (if 0 < wb_drop_rate blk
             then F_dropout eng c (wb_drop_rate blk) (wb_training blk) else Some c);
       n \<leftarrow> BatchNorm2d_forward eng (path @ [''bn2'']) (wb_bn2 blk) d;
       a \<leftarrow> F_relu eng n;
       Conv2d_forward eng (path @ [''conv2'']) (wb_conv2 blk) a
     }"

section \<open>Results of fallible construction\<close>

text \<open>
  A Python call returns or raises. \<open>Inr v\<close> is a normal return of \<open>v\<close>, \<open>Inl e\<close> an
  exception that nobody catches. \<open>EngineError\<close> stands for whatever the numeric engine
  raises; \<open>InitializerError\<close> for whatever the weight initializer raises.
\<close>

datatype py_error = AssertionError | IndexError | EngineError | InitializerError

type_synonym 'a result = "py_error + 'a"

definition bind_result :: "'a result \<Rightarrow> ('a \<Rightarrow> 'b result) \<Rightarrow> 'b result" where
  "bind_result r f = (case r of Inl e \<Rightarrow> Inl e | Inr v \<Rightarrow> f v)"

definition list_index :: "'a list \<Rightarrow> nat \<Rightarrow> 'a result" where
  "list_index xs i = (if i < length xs then Inr (xs ! i) else Inl IndexError)"

text \<open>The calls of the layer constructors: the layer, or the exception of the engine.\<close>

definition Conv2d_new :: "'t engine \<Rightarrow> Conv2d \<Rightarrow> Conv2d result" where
  "Conv2d_new eng c = (if Conv2d_init eng c then Inr c else Inl EngineError)"

definition BatchNorm2d_new :: "'t engine \<Rightarrow> BatchNorm2d \<Rightarrow> BatchNorm2d result" where
  "BatchNorm2d_new eng l = (if BatchNorm2d_init eng l then Inr l else Inl EngineError)"

definition Linear_new :: "'t engine \<Rightarrow> Linear \<Rightarrow> Linear result" where
  "Linear_new eng l = (if Linear_init eng l then Inr l else Inl EngineError)"

text \<open>
  The constructor of a block calls the constructors of its layers and raises when one of
  them does. \<open>BasicBlock_init\<close>, \<open>BottleneckBlock_init\<close> and \<open>WrnBlock_init\<close>
  above describe the object that is built when they all return; \<open>_constructs\<close> says
  whether they do.
\<close>

definition BasicBlock_constructs :: "'t engine \<Rightarrow> BasicBlock \<Rightarrow> bool" where
  "BasicBlock_constructs eng b =
     (BatchNorm2d_init eng (bb_bn1 b) \<and> Conv2d_init eng (bb_conv1 b) \<and>
      BatchNorm2d_init eng (bb_bn2 b) \<and> Conv2d_init eng (bb_conv2 b) \<and>
      (case bb_bn3 b of None \<Rightarrow> True | Some l \<Rightarrow> BatchNorm2d_init eng l) \<and>
      list_all (\<lambda>(name, c). Conv2d_init eng c) (bb_shortcut b))"

definition BottleneckBlock_constructs :: "'t engine \<Rightarrow> BottleneckBlock \<Rightarrow> bool" where
  "BottleneckBlock_constructs eng b =
     (BatchNorm2d_init eng (bt_bn1 b) \<and> Conv2d_init eng (bt_conv1 b) \<and>
      BatchNorm2d_init eng (bt_bn2 b) \<and> Conv2d_init eng (bt_conv2 b) \<and>
      BatchNorm2d_init eng (bt_bn3 b) \<and> Conv2d_init eng (bt_conv3 b) \<and>
      (case bt_bn4 b of None \<Rightarrow> True | Some l \<Rightarrow> BatchNorm2d_init eng l) \<and>
      list_all (\<lambda>(name, c). Conv2d_init eng c) (bt_shortcut b))"

definition WrnBlock_constructs :: "'t engine \<Rightarrow> WrnBlock \<Rightarrow> bool" where
  "WrnBlock_constructs eng b =
     (BatchNorm2d_init eng (wb_bn1 b) \<and> Conv2d_init eng (wb_conv1 b) \<and>
      BatchNorm2d_init eng (wb_bn2 b) \<and> Conv2d_init eng (wb_conv2 b) \<and>
      list_all (\<lambda>(name, c). Conv2d_init eng c) (wb_shortcut b))"

section \<open>Block names\<close>

text \<open>\<open>f'block{index + 1}'\<close>: the decimal numeral of a natural number.\<close>

fun str_nat :: "nat \<Rightarrow> string" where
  "str_nat n =
     (if n < 10 then [''0123456789'' ! n]
      else str_nat (n div 10) @ [''0123456789'' ! (n mod 10)])"

declare str_nat.simps [simp del]

definition block_name :: "nat \<Rightarrow> string" where
  "block_name index = ''block'' @ str_nat (index + 1)"

section \<open>resnet_preact: stage builder and network\<close>

text \<open>
  The parameter \<open>block\<close> of the stage builder is a class; an object of either class is
  a \<open>block\<close>.
\<close>

datatype block_class = BasicBlock_class | BottleneckBlock_class

datatype block = BasicBlock_obj BasicBlock | BottleneckBlock_obj BottleneckBlock

fun expansion :: "block_class \<Rightarrow> int" where
  "expansion BasicBlock_class = 1"
| "expansion BottleneckBlock_class = 4"

fun block_init :: "block_class \<Rightarrow> int \<Rightarrow> int \<Rightarrow> int \<Rightarrow> bool \<Rightarrow> bool \<Rightarrow> bool \<Rightarrow> block" where
  "block_init BasicBlock_class i out s r a p = BasicBlock_obj (BasicBlock_init i out s r a p)"
| "block_init BottleneckBlock_class i out s r a p =
     BottleneckBlock_obj (BottleneckBlock_init i out s r a p)"

fun block_forward :: "'t engine \<Rightarrow> string list \<Rightarrow> block \<Rightarrow> 't \<Rightarrow> 't option" where
  "block_forward eng path (BasicBlock_obj b) x = BasicBlock_forward eng path b x"
| "block_forward eng path (BottleneckBlock_obj b) x = BottleneckBlock_forward eng path b x"

text \<open>
  The call \<open>block(in_channels, out_channels, ...)\<close>: the object that \<open>block_init\<close>
  describes, or the exception of the layer constructor that raised.
\<close>

fun block_constructs :: "'t engine \<Rightarrow> block \<Rightarrow> bool" where
  "block_constructs eng (BasicBlock_obj b) = BasicBlock_constructs eng b"
| "block_constructs eng (BottleneckBlock_obj b) = BottleneckBlock_constructs eng b"

definition block_new ::
  "'t engine \<Rightarrow> block_class \<Rightarrow> int \<Rightarrow> int \<Rightarrow> int \<Rightarrow> bool \<Rightarrow> bool \<Rightarrow> bool \<Rightarrow> block result" where
  "block_new eng block i out s r a p =
     (if block_constructs eng (block_init block i out s r a p)
      then Inr (block_init block i out s r a p) else Inl EngineError)"

text \<open>
  \<open>Network._make_stage\<close> of \<open>resnet_preact.py\<close>; its first two arguments after the
  engine are the attributes \<open>_remove_first_relu\<close> and \<open>_add_last_bn\<close> of \<open>self\<close>.
  The loop runs over \<open>range(n_blocks)\<close>, which is empty when \<open>n_blocks\<close> is not
  positive. The calls of the block constructor are the only statements that may raise;
  an exception leaves the loop and the function (here: the remaining iterations pass it
  on).
\<close>

definition make_stage ::
  "'t engine \<Rightarrow> bool \<Rightarrow> bool \<Rightarrow> int \<Rightarrow> int \<Rightarrow> int \<Rightarrow> block_class \<Rightarrow> int \<Rightarrow> bool \<Rightarrow>
   block Sequential result" where
  "make_stage eng remove_first_relu add_last_bn in_ch out_ch n_blocks block strd preact =
     foldl
       (\<lambda>stage index.
          bind_result stage (\<lambda>stage.
            if index = 0
            then bind_result
                   (block_new eng block in_ch out_ch strd remove_first_relu add_last_bn preact)
                   (\<lambda>b. Inr (add_module (block_name index) b stage))
            else bind_result
                   (block_new eng block out_ch out_ch 1 remove_first_relu add_last_bn False)
                   (\<lambda>b. Inr (add_module (block_name index) b stage))))
       (Inr []) [0..<nat n_blocks]"

record config =
  initial_channels :: int
  remove_first_relu :: bool
  add_last_bn :: bool
  block_type :: string
  depth :: int
  preact_stage :: "bool list"
  init_mode :: string
  dataset_n_channels :: int
  dataset_image_size :: int
  dataset_n_classes :: int

record Network =
  net_remove_first_relu :: bool
  net_add_last_bn :: bool
  net_conv :: Conv2d
  net_stage1 :: "block Sequential"
  net_stage2 :: "block Sequential"
  net_stage3 :: "block Sequential"
  net_bn :: BatchNorm2d
  net_feature_size :: int
  net_fc :: Linear

text \<open>
  The library keeps one global flag, whether gradients are tracked. The state also keeps
  a trace of the calls of \<open>_forward_conv\<close>: the flag at the call and the argument.
\<close>

record 't torch_state =
  grad_enabled :: bool
  forward_conv_calls :: "(bool \<times> 't) list"

definition n_channels_of :: "int \<Rightarrow> block_class \<Rightarrow> int list" where
  "n_channels_of ic block = [ic, ic * 2 * expansion block, ic * 4 * expansion block]"

text \<open>
  \<open>Network._forward_conv\<close>, on the attributes it reads (the constructor calls it before
  \<open>fc\<close> exists).
\<close>

definition forward_conv ::
  "'t engine \<Rightarrow> Conv2d \<Rightarrow> block Sequential \<Rightarrow> block Sequential \<Rightarrow> block Sequential \<Rightarrow>
   BatchNorm2d \<Rightarrow> 't \<Rightarrow> 't option" where
  "forward_conv eng conv stage1 stage2 stage3 bn x =
     do {
       x \<leftarrow> Conv2d_forward eng [''conv''] conv x;
       x \<leftarrow> Sequential_forward (block_forward eng) [''stage1''] stage1 x;
       x \<leftarrow> Sequential_forward (block_forward eng) [''stage2''] stage2 x;
       x \<leftarrow> Sequential_forward (block_forward eng) [''stage3''] stage3 x;
       n \<leftarrow> BatchNorm2d_forward eng [''bn''] bn x;
       x \<leftarrow> F_relu eng n;
       F_adaptive_avg_pool2d eng x 1
     }"

text \<open>
  The statements under \<open># compute conv feature size\<close>, inside the \<open>no_grad\<close> block:
  \<open>fwd\<close> is \<open>self._forward_conv\<close>. The call is entered in the trace.
\<close>

definition compute_feature_size ::
  "'t engine \<Rightarrow> ('t \<Rightarrow> 't option) \<Rightarrow> int list \<Rightarrow> 't torch_state \<Rightarrow> int result \<times> 't torch_state" where
  "compute_feature_size eng fwd shape s =
     (case torch_zeros eng shape float32 of
        None \<Rightarrow> (Inl EngineError, s)
      | Some dummy_data \<Rightarrow>
          (let s' = s\<lparr> forward_conv_calls := forward_conv_calls s @ [(grad_enabled s, dummy_data)] \<rparr>
           in case do { y \<leftarrow> fwd dummy_data;
                        v \<leftarrow> tensor_view eng y [- 1];
                        Some (tensor_size eng v) } of
                None \<Rightarrow> (Inl EngineError, s')
              | Some [] \<Rightarrow> (Inl IndexError, s')
              | Some (d # _) \<Rightarrow> (Inr d, s')))"

text \<open>
  \<open>with torch.no_grad():\<close> switches gradient tracking off for its body and restores the
  flag when the body is left, by a return or by an exception.
\<close>

definition no_grad ::
  "('t torch_state \<Rightarrow> 'a \<times> 't torch_state) \<Rightarrow> 't torch_state \<Rightarrow> 'a \<times> 't torch_state" where
  "no_grad body s =
     (let (r, s') = body (s\<lparr> grad_enabled := False \<rparr>)
      in (r, s'\<lparr> grad_enabled := grad_enabled s \<rparr>))"

text \<open>
  \<open>Network.__init__\<close> of \<open>resnet_preact.py\<close> from the channel list on (\<open>Network_build\<close>)
  and as a whole (\<open>Network_init\<close>), statement by statement: the stem convolution,
  the three stages, the normalisation, the probe, the classifier, the initializer. The
  weight initializer is not part of these files: \<open>initialize\<close> is \<open>None\<close> when creating and applying it returns, and the error
  when it raises; the weights it sets belong to the engine.
\<close>

definition Network_build ::
  "'t engine \<Rightarrow> (string \<Rightarrow> py_error option) \<Rightarrow> config \<Rightarrow> block_class \<Rightarrow> int \<Rightarrow> 't torch_state \<Rightarrow>
   Network result \<times> 't torch_state" where
  "Network_build eng initialize cfg block n_blocks_per_stage s =
     (let n_channels = n_channels_of (initial_channels cfg) block;
          conv = \<lparr> in_channels = dataset_n_channels cfg, out_channels = n_channels ! 0,
                   kernel_size = 3, stride = 1, padding = 1, bias = False \<rparr>;
          mk = make_stage eng (remove_first_relu cfg) (add_last_bn cfg)
      in case
           bind_result (Conv2d_new eng conv) (\<lambda>conv.
           bind_result (list_index (preact_stage cfg) 0) (\<lambda>p0.
           bind_result (mk (n_channels ! 0) (n_channels ! 0) n_blocks_per_stage block 1 p0) (\<lambda>stage1.
           bind_result (list_index (preact_stage cfg) 1) (\<lambda>p1.
           bind_result (mk (n_channels ! 0) (n_channels ! 1) n_blocks_per_stage block 2 p1) (\<lambda>stage2.
           bind_result (list_index (preact_stage cfg) 2) (\<lambda>p2.
           bind_result (mk (n_channels ! 1) (n_channels ! 2) n_blocks_per_stage block 2 p2) (\<lambda>stage3.
           bind_result
             (BatchNorm2d_new eng \<lparr> num_features = n_channels ! 2, bn_training = True \<rparr>) (\<lambda>bn.
           Inr (stage1, stage2, stage3, bn)))))))))
         of
           Inl e \<Rightarrow> (Inl e, s)
         | Inr (stage1, stage2, stage3, bn) \<Rightarrow>
             (let (r, s') =
                    no_grad
                      (compute_feature_size eng (forward_conv eng conv stage1 stage2 stage3 bn)
                         [1, dataset_n_channels cfg, dataset_image_size cfg, dataset_image_size cfg])
                      s
              in case r of
                   Inl e \<Rightarrow> (Inl e, s')
                 | Inr feature_size \<Rightarrow>
                     (case Linear_new eng \<lparr> in_features = feature_size,
                                              out_features = dataset_n_classes cfg \<rparr> of
                        Inl e \<Rightarrow> (Inl e, s')
                      | Inr fc \<Rightarrow>
                         case initialize (init_mode cfg) of
                           Some e \<Rightarrow> (Inl e, s')
                         | None \<Rightarrow>
                             (Inr \<lparr> net_remove_first_relu = remove_first_relu cfg,
                                    net_add_last_bn = add_last_bn cfg,
                                    net_conv = conv,
                                    net_stage1 = stage1,
                                    net_stage2 = stage2,
                                    net_stage3 = stage3,
                                    net_bn = bn,
                                    net_feature_size = feature_size,
                                    net_fc = fc \<rparr>, s'))))"

definition Network_init ::
  "'t engine \<Rightarrow> (string \<Rightarrow> py_error option) \<Rightarrow> config \<Rightarrow> 't torch_state \<Rightarrow>
   Network result \<times> 't torch_state" where
  "Network_init eng initialize cfg s =
     (if block_type cfg \<notin> set [''basic'', ''bottleneck''] then (Inl AssertionError, s)
      else if block_type cfg = ''basic'' then
        (let n_blocks_per_stage = (depth cfg - 2) div 6
         in if n_blocks_per_stage * 6 + 2 \<noteq> depth cfg then (Inl AssertionError, s)
            else Network_build eng initialize cfg BasicBlock_class n_blocks_per_stage s)
      else
        (let n_blocks_per_stage = (depth cfg - 2) div 9
         in if n_blocks_per_stage * 9 + 2 \<noteq> depth cfg then (Inl AssertionError, s)
            else Network_build eng initialize cfg BottleneckBlock_class n_blocks_per_stage s))"

text \<open>\<open>Network.forward\<close>: \<open>x.size(0)\<close> raises on a tensor without dimensions.\<close>

definition flatten_classify :: "'t engine \<Rightarrow> Linear \<Rightarrow> 't \<Rightarrow> 't option" where
  "flatten_classify eng fc x =
     (case tensor_size eng x of
        [] \<Rightarrow> None
      | b # _ \<Rightarrow> do { x \<leftarrow> tensor_view eng x [b, - 1]; Linear_forward eng [''fc''] fc x })"

definition Network_forward ::
  "'t engine \<Rightarrow> Network \<Rightarrow> 't \<Rightarrow> 't torch_state \<Rightarrow> 't option \<times> 't torch_state" where
  "Network_forward eng net x s =
     (let s' = s\<lparr> forward_conv_calls := forward_conv_calls s @ [(grad_enabled s, x)] \<rparr>
      in (do { x \<leftarrow> forward_conv eng (net_conv net) (net_stage1 net) (net_stage2 net)
                     (net_stage3 net) (net_bn net) x;
               flatten_classify eng (net_fc net) x }, s'))"

section \<open>wrn: stage builder and network\<close>

text \<open>
  \<open>Network._make_stage\<close> of \<open>wrn.py\<close>; \<open>block\<close> is always the one block class.
  The function takes no pre-activation flag: the constructor of the block derives it.
\<close>

definition WrnBlock_new :: "'t engine \<Rightarrow> int \<Rightarrow> int \<Rightarrow> int \<Rightarrow> real \<Rightarrow> WrnBlock result" where
  "WrnBlock_new eng i out s d =
     (if WrnBlock_constructs eng (WrnBlock_init i out s d)
      then Inr (WrnBlock_init i out s d) else Inl EngineError)"

definition wrn_make_stage ::
  "'t engine \<Rightarrow> int \<Rightarrow> int \<Rightarrow> int \<Rightarrow> int \<Rightarrow> real \<Rightarrow> WrnBlock Sequential result" where
  "wrn_make_stage eng in_ch out_ch n_blocks strd drop_rate =
     foldl
       (\<lambda>stage index.
          bind_result stage (\<lambda>stage.
            if index = 0
            then bind_result (WrnBlock_new eng in_ch out_ch strd drop_rate)
                   (\<lambda>b. Inr (add_module (block_name index) b stage))
            else bind_result (WrnBlock_new eng out_ch out_ch 1 drop_rate)
                   (\<lambda>b. Inr (add_module (block_name index) b stage))))
       (Inr []) [0..<nat n_blocks]"

record wrn_config =
  wrn_depth :: int
  wrn_initial_channels :: int
  wrn_widening_factor :: int
  wrn_drop_rate :: real
  wrn_init_mode :: string
  wrn_dataset_n_channels :: int
  wrn_dataset_image_size :: int
  wrn_dataset_n_classes :: int

record WrnNetwork =
  wn_conv :: Conv2d
  wn_stage1 :: "WrnBlock Sequential"
  wn_stage2 :: "WrnBlock Sequential"
  wn_stage3 :: "WrnBlock Sequential"
  wn_bn :: BatchNorm2d
  wn_feature_size :: int
  wn_fc :: Linear

definition wrn_n_channels_of :: "int \<Rightarrow> int \<Rightarrow> int list" where
  "wrn_n_channels_of ic widening_factor =
     [ic, ic * widening_factor, ic * 2 * widening_factor, ic * 4 * widening_factor]"

definition wrn_forward_conv ::
  "'t engine \<Rightarrow> Conv2d \<Rightarrow> WrnBlock Sequential \<Rightarrow> WrnBlock Sequential \<Rightarrow> WrnBlock Sequential \<Rightarrow>
   BatchNorm2d \<Rightarrow> 't \<Rightarrow> 't option" where
  "wrn_forward_conv eng conv stage1 stage2 stage3 bn x =
     do {
       x \<leftarrow> Conv2d_forward eng [''conv''] conv x;
       x \<leftarrow> Sequential_forward (WrnBlock_forward eng) [''stage1''] stage1 x;
       x \<leftarrow> Sequential_forward (WrnBlock_forward eng) [''stage2''] stage2 x;
       x \<leftarrow> Sequential_forward (WrnBlock_forward eng) [''stage3''] stage3 x;
       n \<leftarrow> BatchNorm2d_forward eng [''bn''] bn x;
       x \<leftarrow> F_relu eng n;
       F_adaptive_avg_pool2d eng x 1
     }"

definition WrnNetwork_build ::
  "'t engine \<Rightarrow> (string \<Rightarrow> py_error option) \<Rightarrow> wrn_config \<Rightarrow> int \<Rightarrow> 't torch_state \<Rightarrow>
   WrnNetwork result \<times> 't torch_state" where
  "WrnNetwork_build eng initialize cfg n_blocks_per_stage s =
     (let n_channels = wrn_n_channels_of (wrn_initial_channels cfg) (wrn_widening_factor cfg);
          drop_rate = wrn_drop_rate cfg;
          conv = \<lparr> in_channels = wrn_dataset_n_channels cfg, out_channels = n_channels ! 0,
                   kernel_size = 3, stride = 1, padding = 1, bias = False \<rparr>
      in case
           bind_result (Conv2d_new eng conv) (\<lambda>conv.
           bind_result
             (wrn_make_stage eng (n_channels ! 0) (n_channels ! 1) n_blocks_per_stage 1 drop_rate)
             (\<lambda>stage1.
           bind_result
             (wrn_make_stage eng (n_channels ! 1) (n_channels ! 2) n_blocks_per_stage 2 drop_rate)
             (\<lambda>stage2.
           bind_result
             (wrn_make_stage eng (n_channels ! 2) (n_channels ! 3) n_blocks_per_stage 2 drop_rate)
             (\<lambda>stage3.
           bind_result
             (BatchNorm2d_new eng \<lparr> num_features = n_channels ! 3, bn_training = True \<rparr>) (\<lambda>bn.
           Inr (stage1, stage2, stage3, bn))))))
         of
           Inl e \<Rightarrow> (Inl e, s)
         | Inr (stage1, stage2, stage3, bn) \<Rightarrow>
             (let (r, s') =
                    no_grad
                      (compute_feature_size eng (wrn_forward_conv eng conv stage1 stage2 stage3 bn)
                         [1, wrn_dataset_n_channels cfg, wrn_dataset_image_size cfg,
                          wrn_dataset_image_size cfg])
                      s
              in case r of
                   Inl e \<Rightarrow> (Inl e, s')
                 | Inr feature_size \<Rightarrow>
                     (case Linear_new eng \<lparr> in_features = feature_size,
                                              out_features = wrn_dataset_n_classes cfg \<rparr> of
                        Inl e \<Rightarrow> (Inl e, s')
                      | Inr fc \<Rightarrow>
                         case initialize (wrn_init_mode cfg) of
                           Some e \<Rightarrow> (Inl e, s')
                         | None \<Rightarrow>
                             (Inr \<lparr> wn_conv = conv,
                                    wn_stage1 = stage1,
                                    wn_stage2 = stage2,
                                    wn_stage3 = stage3,
                                    wn_bn = bn,
                                    wn_feature_size = feature_size,
                                    wn_fc = fc \<rparr>, s'))))"

definition WrnNetwork_init ::
  "'t engine \<Rightarrow> (string \<Rightarrow> py_error option) \<Rightarrow> wrn_config \<Rightarrow> 't torch_state \<Rightarrow>
   WrnNetwork result \<times> 't torch_state" where
  "WrnNetwork_init eng initialize cfg s =
     (let n_blocks_per_stage = (wrn_depth cfg - 4) div 6
      in if n_blocks_per_stage * 6 + 4 \<noteq> wrn_depth cfg then (Inl AssertionError, s)
         else WrnNetwork_build eng initialize cfg n_blocks_per_stage s)"

definition WrnNetwork_forward ::
  "'t engine \<Rightarrow> WrnNetwork \<Rightarrow> 't \<Rightarrow> 't torch_state \<Rightarrow> 't option \<times> 't torch_state" where
  "WrnNetwork_forward eng net x s =
     (let s' = s\<lparr> forward_conv_calls := forward_conv_calls s @ [(grad_enabled s, x)] \<rparr>
      in (do { x \<leftarrow> wrn_forward_conv eng (wn_conv net) (wn_stage1 net) (wn_stage2 net)
                     (wn_stage3 net) (wn_bn net) x;
               flatten_classify eng (wn_fc net) x }, s'))"

section \<open>The mode of a network\<close>

text \<open>
  \<open>train(mode)\<close> of the library's module class sets the flag \<open>training\<close> of the
  module and of every module below it, and \<open>eval()\<close> is \<open>train(False)\<close>. These are
  methods that the networks inherit, not code of the two files; they are needed to speak
  of a network in inference mode. A network is in training mode when it is built.
\<close>

definition BatchNorm2d_train :: "bool \<Rightarrow> BatchNorm2d \<Rightarrow> BatchNorm2d" where
  "BatchNorm2d_train mode l = l\<lparr> bn_training := mode \<rparr>"

definition BasicBlock_train :: "bool \<Rightarrow> BasicBlock \<Rightarrow> BasicBlock" where
  "BasicBlock_train mode b =
     b\<lparr> bb_bn1 := BatchNorm2d_train mode (bb_bn1 b),
        bb_bn2 := BatchNorm2d_train mode (bb_bn2 b),
        bb_bn3 := map_option (BatchNorm2d_train mode) (bb_bn3 b) \<rparr>"

definition BottleneckBlock_train :: "bool \<Rightarrow> BottleneckBlock \<Rightarrow> BottleneckBlock" where
  "BottleneckBlock_train mode b =
     b\<lparr> bt_bn1 := BatchNorm2d_train mode (bt_bn1 b),
        bt_bn2 := BatchNorm2d_train mode (bt_bn2 b),
        bt_bn3 := BatchNorm2d_train mode (bt_bn3 b),
        bt_bn4 := map_option (BatchNorm2d_train mode) (bt_bn4 b) \<rparr>"

fun block_train :: "bool \<Rightarrow> block \<Rightarrow> block" where
  "block_train mode (BasicBlock_obj b) = BasicBlock_obj (BasicBlock_train mode b)"
| "block_train mode (BottleneckBlock_obj b) = BottleneckBlock_obj (BottleneckBlock_train mode b)"

definition WrnBlock_train :: "bool \<Rightarrow> WrnBlock \<Rightarrow> WrnBlock" where
  "WrnBlock_train mode b =
     b\<lparr> wb_training := mode,
        wb_bn1 := BatchNorm2d_train mode (wb_bn1 b),
        wb_bn2 := BatchNorm2d_train mode (wb_bn2 b) \<rparr>"

definition Sequential_train :: "(bool \<Rightarrow> 'm \<Rightarrow> 'm) \<Rightarrow> bool \<Rightarrow> 'm Sequential \<Rightarrow> 'm Sequential" where
  "Sequential_train f mode ms = map (\<lambda>(name, m). (name, f mode m)) ms"

definition Network_train :: "bool \<Rightarrow> Network \<Rightarrow> Network" where
  "Network_train mode net =
     net\<lparr> net_stage1 := Sequential_train block_train mode (net_stage1 net),
          net_stage2 := Sequential_train block_train mode (net_stage2 net),
          net_stage3 := Sequential_train block_train mode (net_stage3 net),
          net_bn := BatchNorm2d_train mode (net_bn net) \<rparr>"

definition Network_eval :: "Network \<Rightarrow> Network" where
  "Network_eval net = Network_train False net"

definition WrnNetwork_train :: "bool \<Rightarrow> WrnNetwork \<Rightarrow> WrnNetwork" where
  "WrnNetwork_train mode net =
     net\<lparr> wn_stage1 := Sequential_train WrnBlock_train mode (wn_stage1 net),
          wn_stage2 := Sequential_train WrnBlock_train mode (wn_stage2 net),
          wn_stage3 := Sequential_train WrnBlock_train mode (wn_stage3 net),
          wn_bn := BatchNorm2d_train mode (wn_bn net) \<rparr>"

definition WrnNetwork_eval :: "WrnNetwork \<Rightarrow> WrnNetwork" where
  "WrnNetwork_eval net = WrnNetwork_train False net"

section \<open>The shape contract of the numeric library\<close>

text \<open>
  The engine at the level of tensor shapes: a tensor is its shape, and an operation
  returns the shape of its result, or raises where the library's shape checks do. These
  are the library's rules, not code of the two files:
  \<^item> the constructor of a layer raises when a size of the weight it allocates is
    negative;
  \<^item> a 2-d convolution takes a 4-d input whose channel count is the layer's
    \<open>in_channels\<close>; the layer needs at least one input and one output channel, a
    positive stride and a padded input no smaller than the kernel; a spatial size \<open>n\<close>
    becomes \<open>(n + 2 * padding - kernel_size) div stride + 1\<close>;
  \<^item> 2-d batch normalisation takes a 4-d input whose channel count is the layer's
    \<open>num_features\<close> and keeps the shape; in training mode it raises when a channel
    holds a single value, that is when batch size times height times width is 1;
  \<^item> the activation keeps the shape; dropout keeps it and needs a rate in \<open>[0, 1]\<close>;
  \<^item> adaptive average pooling replaces the two spatial sizes, which must not be empty,
    by the output size;
  \<^item> \<open>y += s\<close> keeps the shape of \<open>y\<close> and needs every size of \<open>s\<close> to be that
    of \<open>y\<close>, or 1;
  \<^item> \<open>view\<close> keeps the number of elements; one size may be \<open>-1\<close> and is inferred;
  \<^item> a linear layer takes an input whose last size is \<open>in_features\<close> and replaces it
    by \<open>out_features\<close>.
  Batch normalisation is the one rule that depends on the mode of the module.
\<close>

definition conv2d_constructs :: "Conv2d \<Rightarrow> bool" where
  "conv2d_constructs c = (0 \<le> in_channels c \<and> 0 \<le> out_channels c \<and> 0 \<le> kernel_size c)"

definition batch_norm_constructs :: "BatchNorm2d \<Rightarrow> bool" where
  "batch_norm_constructs l = (0 \<le> num_features l)"

definition linear_constructs :: "Linear \<Rightarrow> bool" where
  "linear_constructs l = (0 \<le> in_features l \<and> 0 \<le> out_features l)"

fun conv2d_shape :: "Conv2d \<Rightarrow> int list \<Rightarrow> int list option" where
  "conv2d_shape c [B, C, H, W] =
     (if 1 \<le> stride c \<and> 0 \<le> padding c \<and> 1 \<le> kernel_size c \<and> 1 \<le> out_channels c \<and>
         1 \<le> in_channels c \<and> C = in_channels c \<and>
         kernel_size c \<le> H + 2 * padding c \<and> kernel_size c \<le> W + 2 * padding c
      then Some [B, out_channels c,
                 (H + 2 * padding c - kernel_size c) div stride c + 1,
                 (W + 2 * padding c - kernel_size c) div stride c + 1]
      else None)"
| "conv2d_shape c _ = None"

fun batch_norm_shape :: "BatchNorm2d \<Rightarrow> int list \<Rightarrow> int list option" where
  "batch_norm_shape l [B, C, H, W] =
     (if C = num_features l
      then if bn_training l \<and> B * H * W = 1 then None else Some [B, C, H, W]
      else None)"
| "batch_norm_shape l _ = None"

fun adaptive_avg_pool2d_shape :: "int list \<Rightarrow> int \<Rightarrow> int list option" where
  "adaptive_avg_pool2d_shape [B, C, H, W] out =
     (if 1 \<le> C \<and> 1 \<le> H \<and> 1 \<le> W \<and> 0 \<le> out then Some [B, C, out, out] else None)"
| "adaptive_avg_pool2d_shape _ out = None"

definition iadd_shape :: "int list \<Rightarrow> int list \<Rightarrow> int list option" where
  "iadd_shape y s = (if list_all2 (\<lambda>d e. e = d \<or> e = 1) y s then Some y else None)"

definition dropout_shape :: "int list \<Rightarrow> real \<Rightarrow> bool \<Rightarrow> int list option" where
  "dropout_shape x p training = (if 0 \<le> p \<and> p \<le> 1 then Some x else None)"

definition view_shape :: "int list \<Rightarrow> int list \<Rightarrow> int list option" where
  "view_shape x dims =
     (let numel = prod_list x;
          given = filter (\<lambda>d. d \<noteq> - 1) dims;
          known = prod_list given
      in if list_ex (\<lambda>d. d < 0) given then None
         else if length given = length dims then (if known = numel then Some dims else None)
         else if length given + 1 = length dims then
           (if known \<noteq> 0 \<and> numel mod known = 0
            then Some (map (\<lambda>d. if d = - 1 then numel div known else d) dims)
            else None)
         else None)"

definition linear_shape :: "Linear \<Rightarrow> int list \<Rightarrow> int list option" where
  "linear_shape l x =
     (if x \<noteq> [] \<and> last x = in_features l then Some (butlast x @ [out_features l]) else None)"

definition zeros_shape :: "int list \<Rightarrow> dtype \<Rightarrow> int list option" where
  "zeros_shape dims dt = (if list_ex (\<lambda>d. d < 0) dims then None else Some dims)"

definition shape_engine :: "int list engine" where
  "shape_engine =
     \<lparr> Conv2d_init = conv2d_constructs,
       BatchNorm2d_init = batch_norm_constructs,
       Linear_init = linear_constructs,
       Conv2d_forward = (\<lambda>path. conv2d_shape),
       BatchNorm2d_forward = (\<lambda>path. batch_norm_shape),
       Linear_forward = (\<lambda>path. linear_shape),
       F_relu = Some,
       F_dropout = dropout_shape,
       F_adaptive_avg_pool2d = adaptive_avg_pool2d_shape,
       iadd = iadd_shape,
       tensor_view = view_shape,
       tensor_size = (\<lambda>x. x),
       torch_zeros = zeros_shape \<rparr>"

section \<open>Auxiliary notions of the statements\<close>

text \<open>
  The spatial size after a convolution of stride \<open>s\<close> whose kernel and padding keep the
  size at stride 1 (3x3 with padding 1, or 1x1 without padding).
\<close>

definition reduced :: "int \<Rightarrow> int \<Rightarrow> int" where
  "reduced n s = (n - 1) div s + 1"

text \<open>The block class and the channel lists that the constructors compute from a configuration.\<close>

definition block_class_of :: "config \<Rightarrow> block_class" where
  "block_class_of cfg =
     (if block_type cfg = ''basic'' then BasicBlock_class else BottleneckBlock_class)"

definition config_n_channels :: "config \<Rightarrow> int list" where
  "config_n_channels cfg = n_channels_of (initial_channels cfg) (block_class_of cfg)"

definition wrn_config_n_channels :: "wrn_config \<Rightarrow> int list" where
  "wrn_config_n_channels cfg =
     wrn_n_channels_of (wrn_initial_channels cfg) (wrn_widening_factor cfg)"

text \<open>
  The configurations of the examples: images of 3 channels and 32x32 pixels, 10 classes,
  16 initial channels; and the state of the library before anything was called.
\<close>

definition cifar_config :: "string \<Rightarrow> int \<Rightarrow> config" where
  "cifar_config bt d =
     \<lparr> initial_channels = 16, remove_first_relu = False, add_last_bn = False,
       block_type = bt, depth = d, preact_stage = [True, True, True],
       init_mode = ''kaiming_fan_out'', dataset_n_channels = 3, dataset_image_size = 32,
       dataset_n_classes = 10 \<rparr>"

definition cifar_wrn_config :: "int \<Rightarrow> wrn_config" where
  "cifar_wrn_config d =
     \<lparr> wrn_depth = d, wrn_initial_channels = 16, wrn_widening_factor = 10, wrn_drop_rate = 0,
       wrn_init_mode = ''kaiming_fan_in'', wrn_dataset_n_channels = 3,
       wrn_dataset_image_size = 32, wrn_dataset_n_classes = 10 \<rparr>"

definition fresh_state :: "int list torch_state" where
  "fresh_state = \<lparr> grad_enabled = True, forward_conv_calls = [] \<rparr>"

section \<open>Residual blocks: shortcut and placement of the pre-activation\<close>

lemma Sequential_forward_Nil: "Sequential_forward f path [] = Some"
  by (rule ext) simp

text \<open>
  C2, as stated, fails: a block with equal channel counts and stride 2 has the identity
  (empty) shortcut, although its stride is not 1. The constructors test the channel
  counts only.
\<close>

theorem shortcut_identity_at_stride_two:
  "bb_shortcut (BasicBlock_init 16 16 2 False False False) = [] \<and>
   \<not> ((16::int) = 16 \<and> (2::int) = 1)"
  by (simp add: BasicBlock_init_def)

text \<open>
  C2, amended: in all three block classes the shortcut is the identity (the empty
  container, whose forward pass returns its input) if and only if
  \<open>in_channels = out_channels\<close>, whatever the stride; otherwise it holds exactly one
  module, a 1x1 convolution from \<open>in_channels\<close> to \<open>out_channels\<close> with the block's
  stride, no padding and no bias.
\<close>

theorem shortcut_identity_iff_channels_equal:
  "bb_shortcut (BasicBlock_init i out s r a p) =
     (if i = out then []
      else [(''conv'', \<lparr> in_channels = i, out_channels = out, kernel_size = 1,
                          stride = s, padding = 0, bias = False \<rparr>)]) \<and>
   bt_shortcut (BottleneckBlock_init i out s r a p) =
     (if i = out then []
      else [(''conv'', \<lparr> in_channels = i, out_channels = out, kernel_size = 1,
                          stride = s, padding = 0, bias = False \<rparr>)]) \<and>
   wb_shortcut (WrnBlock_init i out s d) =
     (if i = out then []
      else [(''conv'', \<lparr> in_channels = i, out_channels = out, kernel_size = 1,
                          stride = s, padding = 0, bias = False \<rparr>)]) \<and>
   shortcut_forward eng path [] x = Some x \<and>
   shortcut_forward eng path [(''conv'', c)] x =
     Conv2d_forward eng (path @ [''shortcut'', ''conv'']) c x"
  by (simp add: BasicBlock_init_def BottleneckBlock_init_def WrnBlock_init_def
      shortcut_forward_def Let_def Sequential_forward_Nil)

text \<open>
  C3: in both block classes of \<open>resnet_preact\<close> the input is normalised first. With
  \<open>preact\<close>, the activation follows and its result feeds the residual path and the
  shortcut alike. Without \<open>preact\<close>, the activation is applied unless
  \<open>remove_first_relu\<close>, its result feeds the residual path only, and the shortcut
  receives the raw input.
\<close>

theorem preact_placement:
  "BasicBlock_forward eng path blk x =
     do {
       n \<leftarrow> BatchNorm2d_forward eng (path @ [''bn1'']) (bb_bn1 blk) x;
       if bb_preact blk then
         do {
           a \<leftarrow> F_relu eng n;
           r \<leftarrow> BasicBlock_residual_path eng path blk a;
           s \<leftarrow> shortcut_forward eng path (bb_shortcut blk) a;
           iadd eng r s
         }
       else
         do {
           u \<leftarrow> (if bb_remove_first_relu blk then Some n else F_relu eng n);
           r \<leftarrow> BasicBlock_residual_path eng path blk u;
           s \<leftarrow> shortcut_forward eng path (bb_shortcut blk) x;
           iadd eng r s
         }
     } \<and>
   BottleneckBlock_forward eng path blk' x =
     do {
       n \<leftarrow> BatchNorm2d_forward eng (path @ [''bn1'']) (bt_bn1 blk') x;
       if bt_preact blk' then
         do {
           a \<leftarrow> F_relu eng n;
           r \<leftarrow> BottleneckBlock_residual_path eng path blk' a;
           s \<leftarrow> shortcut_forward eng path (bt_shortcut blk') a;
           iadd eng r s
         }
       else
         do {
           u \<leftarrow> (if bt_remove_first_relu blk' then Some n else F_relu eng n);
           r \<leftarrow> BottleneckBlock_residual_path eng path blk' u;
           s \<leftarrow> shortcut_forward eng path (bt_shortcut blk') x;
           iadd eng r s
         }
     }"
  by (simp add: BasicBlock_forward_def BasicBlock_residual_path_def
      BottleneckBlock_forward_def BottleneckBlock_residual_path_def split: bind_split)

text \<open>
  C9: two \<open>resnet_preact\<close> blocks constructed with \<open>preact = True\<close> from the same
  arguments but for \<open>remove_first_relu\<close> compute the same result, on every input and
  for every engine (that is, for all weights).
\<close>

theorem remove_first_relu_without_effect_under_preact:
  "BasicBlock_forward eng path (BasicBlock_init i out s True a True) x =
   BasicBlock_forward eng path (BasicBlock_init i out s False a True) x \<and>
   BottleneckBlock_forward eng path (BottleneckBlock_init i out s True a True) x =
   BottleneckBlock_forward eng path (BottleneckBlock_init i out s False a True) x"
  by (simp add: BasicBlock_forward_def BasicBlock_init_def
      BottleneckBlock_forward_def BottleneckBlock_init_def Let_def)

text \<open>
  C10: in the \<open>wrn\<close> block the flag that decides what the shortcut sees is fixed by
  the constructor as \<open>in_channels \<noteq> out_channels\<close>. The input is always normalised and
  activated; the shortcut receives the activated signal when the flag is set and the raw
  input otherwise; dropout sits between the two convolutions and is applied only for a
  positive rate.
\<close>

theorem wrn_preactivation_by_channel_equality:
  "wb_preactivate_both (WrnBlock_init i out s d) = (i \<noteq> out) \<and>
   WrnBlock_forward eng path blk x =
     do {
       n \<leftarrow> BatchNorm2d_forward eng (path @ [''bn1'']) (wb_bn1 blk) x;
       a \<leftarrow> F_relu eng n;
       c \<leftarrow> Conv2d_forward eng (path @ [''conv1'']) (wb_conv1 blk) a;
       r \<leftarrow> WrnBlock_after_conv1 eng path blk c;
       s \<leftarrow> shortcut_forward eng path (wb_shortcut blk)
              (if wb_preactivate_both blk then a else x);
       iadd eng r s
     }"
  by (simp add: WrnBlock_forward_def WrnBlock_init_def WrnBlock_after_conv1_def
      split: bind_split)

section \<open>The stage builder\<close>

text \<open>
  The names \<open>block1\<close>, \<open>block2\<close>, ... are pairwise different, so that every
  \<open>add_module\<close> of the loop appends a block and none replaces an earlier one.
\<close>

lemma digit_inj:
  assumes "a < 10" "b < 10" "''0123456789'' ! a = ''0123456789'' ! b"
  shows "a = b"
proof -
  have "distinct ''0123456789''" by simp
  moreover have "a < length ''0123456789''" "b < length ''0123456789''"
    using assms by simp_all
  ultimately show ?thesis
    using assms(3) nth_eq_iff_index_eq by blast
qed

lemma str_nat_small: "n < 10 \<Longrightarrow> str_nat n = [''0123456789'' ! n]"
  by (subst str_nat.simps) simp

lemma str_nat_large:
  "10 \<le> n \<Longrightarrow> str_nat n = str_nat (n div 10) @ [''0123456789'' ! (n mod 10)]"
  by (subst str_nat.simps) simp

lemma str_nat_not_Nil: "str_nat n \<noteq> []"
  by (subst str_nat.simps) simp

lemma str_nat_inj: "str_nat n = str_nat m \<Longrightarrow> n = m"
proof (induction n arbitrary: m rule: str_nat.induct)
  case (1 n)
  show ?case
  proof (cases "n < 10")
    case n_small: True
    show ?thesis
    proof (cases "m < 10")
      case True
      with n_small "1.prems" show ?thesis
        by (simp add: str_nat_small digit_inj)
    next
      case False
      with n_small "1.prems" str_nat_not_Nil [of "m div 10"] show ?thesis
        by (auto simp add: str_nat_small str_nat_large)
    qed
  next
    case n_large: False
    show ?thesis
    proof (cases "m < 10")
      case True
      with n_large "1.prems" str_nat_not_Nil [of "n div 10"] show ?thesis
        by (auto simp add: str_nat_small str_nat_large)
    next
      case False
      with n_large "1.prems"
      have tl: "str_nat (n div 10) = str_nat (m div 10)"
        and hd: "''0123456789'' ! (n mod 10) = ''0123456789'' ! (m mod 10)"
        by (simp_all add: str_nat_large)
      from "1.IH" n_large tl have "n div 10 = m div 10" by simp
      moreover from hd have "n mod 10 = m mod 10"
        by (intro digit_inj) simp_all
      ultimately show ?thesis
        by (metis div_mult_mod_eq)
    qed
  qed
qed

lemma block_name_inj: "block_name i = block_name j \<Longrightarrow> i = j"
  using str_nat_inj [of "i + 1" "j + 1"] by (simp add: block_name_def)

lemma add_module_fresh:
  "name \<notin> fst ` set ms \<Longrightarrow> add_module name m ms = ms @ [(name, m)]"
  by (induction ms) auto

lemma stage_blocks_Suc:
  "map (\<lambda>index. if index = 0 then first else other) [0..<Suc k] = first # replicate k other"
proof (induction k)
  case 0
  show ?case by simp
next
  case (Suc k)
  have "map (\<lambda>index. if index = 0 then first else other) [0..<Suc (Suc k)] =
        map (\<lambda>index. if index = 0 then first else other) [0..<Suc k] @ [other]"
    by simp
  also have "\<dots> = first # replicate k other @ [other]"
    using Suc by simp
  also have "\<dots> = first # replicate (Suc k) other"
    by (simp add: replicate_append_same)
  finally show ?case .
qed

lemma stage_blocks:
  assumes "0 < k"
  shows "map snd (map (\<lambda>index. (block_name index, if index = 0 then first else other)) [0..<k]) =
         first # replicate (k - 1) other"
proof -
  from assms obtain j where k: "k = Suc j" by (cases k) auto
  have "map snd (map (\<lambda>index. (block_name index, if index = 0 then first else other)) [0..<k]) =
        map (\<lambda>index. if index = 0 then first else other) [0..<k]"
    by (simp add: comp_def)
  also have "\<dots> = first # replicate (k - 1) other"
    unfolding k using stage_blocks_Suc [of first other j] by (simp del: upt_Suc)
  finally show ?thesis .
qed

lemma stage_loop:
  "foldl (\<lambda>stage index.
            bind_result stage (\<lambda>stage.
              if index = 0
              then bind_result (if ok0 then Inr first else Inl EngineError)
                     (\<lambda>b. Inr (add_module (block_name index) b stage))
              else bind_result (if ok1 then Inr other else Inl EngineError)
                     (\<lambda>b. Inr (add_module (block_name index) b stage))))
         (Inr []) [0..<k] =
   (if (0 < k \<longrightarrow> ok0) \<and> (1 < k \<longrightarrow> ok1)
    then Inr (map (\<lambda>index. (block_name index, if index = 0 then first else other)) [0..<k])
    else Inl EngineError)"
proof (induction k)
  case 0
  show ?case by simp
next
  case (Suc k)
  have fresh: "block_name k \<notin>
      fst ` set (map (\<lambda>index. (block_name index, if index = 0 then first else other)) [0..<k])"
    using block_name_inj by force
  show ?case
    using Suc add_module_fresh [OF fresh] by (cases k) (auto simp: bind_result_def)
qed

lemma make_stage_cases:
  "make_stage eng r a i out n block s p =
   (if (0 < nat n \<longrightarrow> block_constructs eng (block_init block i out s r a p)) \<and>
       (1 < nat n \<longrightarrow> block_constructs eng (block_init block out out 1 r a False))
    then Inr (map (\<lambda>index. (block_name index,
                       if index = 0 then block_init block i out s r a p
                       else block_init block out out 1 r a False)) [0..<nat n])
    else Inl EngineError)"
  unfolding make_stage_def block_new_def by (rule stage_loop)

lemma wrn_make_stage_cases:
  "wrn_make_stage eng i out n s d =
   (if (0 < nat n \<longrightarrow> WrnBlock_constructs eng (WrnBlock_init i out s d)) \<and>
       (1 < nat n \<longrightarrow> WrnBlock_constructs eng (WrnBlock_init out out 1 d))
    then Inr (map (\<lambda>index. (block_name index,
                       if index = 0 then WrnBlock_init i out s d
                       else WrnBlock_init out out 1 d)) [0..<nat n])
    else Inl EngineError)"
  unfolding wrn_make_stage_def WrnBlock_new_def by (rule stage_loop)

lemma make_stage_eq:
  assumes "make_stage eng r a i out n block s p = Inr stage"
  shows "stage = map (\<lambda>index. (block_name index,
                       if index = 0 then block_init block i out s r a p
                       else block_init block out out 1 r a False)) [0..<nat n]"
  using assms unfolding make_stage_cases by (simp split: if_splits)

lemma wrn_make_stage_eq:
  assumes "wrn_make_stage eng i out n s d = Inr stage"
  shows "stage = map (\<lambda>index. (block_name index,
                       if index = 0 then WrnBlock_init i out s d
                       else WrnBlock_init out out 1 d)) [0..<nat n]"
  using assms unfolding wrn_make_stage_cases by (simp split: if_splits)

lemma stage_structure:
  assumes "0 < k"
    and "stage = map (\<lambda>index. (block_name index, if index = 0 then first else other)) [0..<k]"
  shows "length stage = k" "map fst stage = map block_name [0..<k]"
    "map snd stage = first # replicate (k - 1) other"
  using assms stage_blocks [OF assms(1), of first other] by (simp_all add: comp_def)

text \<open>
  C4, as stated, fails: called with \<open>n_blocks = 0\<close>, either stage builder returns the
  empty stage.
\<close>

theorem stage_builder_returns_for_zero_blocks:
  "(0::int) < 1 \<and>
   make_stage shape_engine False False 16 32 0 BasicBlock_class 2 True = Inr [] \<and>
   wrn_make_stage shape_engine 16 32 0 2 0 = Inr []"
  by (simp add: make_stage_def wrn_make_stage_def)

text \<open>
  C4, amended: called with \<open>n_blocks < 1\<close>, the stage builder does not fail; it
  returns the stage without blocks, whose forward pass returns its input.
\<close>

theorem stage_builder_empty_below_one:
  assumes "n_blocks < 1"
  shows "\<exists>stage wrn_stage.
           make_stage eng r a i out n_blocks block s p = Inr stage \<and> stage = [] \<and>
           wrn_make_stage eng i out n_blocks s d = Inr wrn_stage \<and> wrn_stage = [] \<and>
           Sequential_forward (block_forward eng) path stage x = Some x \<and>
           Sequential_forward (WrnBlock_forward eng) path wrn_stage x = Some x"
  using assms by (simp add: make_stage_def wrn_make_stage_def)

theorem stage_builder_empty_below_one_witness:
  "(- 1 :: int) < 1 \<and>
   (\<exists>stage wrn_stage.
      make_stage shape_engine False False 16 16 (- 1) BasicBlock_class 1 True = Inr stage \<and>
      stage = [] \<and>
      wrn_make_stage shape_engine 16 16 (- 1) 1 0 = Inr wrn_stage \<and> wrn_stage = [] \<and>
      Sequential_forward (block_forward shape_engine) [''stage1''] stage [1, 16, 32, 32] =
        Some [1, 16, 32, 32] \<and>
      Sequential_forward (WrnBlock_forward shape_engine) [''stage1''] wrn_stage [1, 16, 32, 32] =
        Some [1, 16, 32, 32])"
  using stage_builder_empty_below_one
    [where n_blocks = "- 1" and r = False and a = False and i = 16 and out = 16
       and block = BasicBlock_class and s = 1 and p = True and d = 0
       and eng = shape_engine and path = "[''stage1'']" and x = "[1, 16, 32, 32]"]
  by simp

text \<open>
  C5, as stated, fails. A call with \<open>n_blocks \<ge> 1\<close> need not produce a stage: with
  \<open>in_channels = -1\<close> the constructor of the first layer raises, in either file. And
  the builder of \<open>wrn\<close> is given no \<open>preact\<close> flag: two calls that differ in the
  channel counts only build first blocks whose pre-activation flags differ.
\<close>

theorem stage_builder_raises_in_layer_constructor:
  "(1::int) \<le> 1 \<and>
   make_stage shape_engine False False (- 1) 16 1 BasicBlock_class 1 True = Inl EngineError \<and>
   wrn_make_stage shape_engine (- 1) 16 1 1 0 = Inl EngineError \<and>
   wrn_make_stage shape_engine 16 16 1 1 0 = Inr [(''block1'', WrnBlock_init 16 16 1 0)] \<and>
   \<not> wb_preactivate_both (WrnBlock_init 16 16 1 0) \<and>
   wrn_make_stage shape_engine 16 32 1 1 0 = Inr [(''block1'', WrnBlock_init 16 32 1 0)] \<and>
   wb_preactivate_both (WrnBlock_init 16 32 1 0)"
  by (simp add: make_stage_cases wrn_make_stage_cases BasicBlock_constructs_def
      WrnBlock_constructs_def BasicBlock_init_def WrnBlock_init_def shape_engine_def
      conv2d_constructs_def batch_norm_constructs_def block_name_def str_nat_small)

text \<open>
  C5, amended. A call with \<open>n_blocks \<ge> 1\<close> returns exactly when the layer
  constructors of the first block return and, for \<open>n_blocks \<ge> 2\<close>, those of a later
  block. When it returns, the stage is the list of exactly \<open>n_blocks\<close> blocks, named
  \<open>block1\<close> to \<open>block\<close>\<open>n_blocks\<close> in this order. In \<open>resnet_preact\<close> the first
  is constructed from \<open>in_channels\<close>, \<open>out_channels\<close>, the given stride and the given
  \<open>preact\<close>; every other one from \<open>out_channels\<close>, \<open>out_channels\<close>, stride 1 and
  \<open>preact = False\<close>. The builder of \<open>wrn\<close> takes no \<open>preact\<close> argument but the
  drop rate: the first block is constructed from \<open>in_channels\<close>, \<open>out_channels\<close>, the
  given stride and the drop rate, every other one from \<open>out_channels\<close>,
  \<open>out_channels\<close>, stride 1 and the drop rate; the pre-activation flag of a block is
  derived, true exactly when its two channel counts differ, hence false for every block
  after the first.
\<close>

theorem stage_is_first_block_then_uniform_blocks:
  assumes "1 \<le> n_blocks"
  shows
    "(make_stage eng r a i out n_blocks block s p = Inr stage \<longrightarrow>
        int (length stage) = n_blocks \<and>
        map fst stage = map block_name [0..<nat n_blocks] \<and>
        map snd stage =
          block_init block i out s r a p #
          replicate (nat n_blocks - 1) (block_init block out out 1 r a False)) \<and>
     ((\<exists>st. make_stage eng r a i out n_blocks block s p = Inr st) \<longleftrightarrow>
        block_constructs eng (block_init block i out s r a p) \<and>
        (2 \<le> n_blocks \<longrightarrow> block_constructs eng (block_init block out out 1 r a False))) \<and>
     (wrn_make_stage eng i out n_blocks s d = Inr wrn_stage \<longrightarrow>
        int (length wrn_stage) = n_blocks \<and>
        map fst wrn_stage = map block_name [0..<nat n_blocks] \<and>
        map snd wrn_stage =
          WrnBlock_init i out s d # replicate (nat n_blocks - 1) (WrnBlock_init out out 1 d) \<and>
        wb_preactivate_both (WrnBlock_init i out s d) = (i \<noteq> out) \<and>
        \<not> wb_preactivate_both (WrnBlock_init out out 1 d)) \<and>
     ((\<exists>st. wrn_make_stage eng i out n_blocks s d = Inr st) \<longleftrightarrow>
        WrnBlock_constructs eng (WrnBlock_init i out s d) \<and>
        (2 \<le> n_blocks \<longrightarrow> WrnBlock_constructs eng (WrnBlock_init out out 1 d)))"
proof -
  from assms have pos: "0 < nat n_blocks" by simp
  have two: "1 < nat n_blocks \<longleftrightarrow> 2 \<le> n_blocks" by auto
  have len: "int (nat n_blocks) = n_blocks" using assms by simp
  have resnet: "int (length stage) = n_blocks \<and>
        map fst stage = map block_name [0..<nat n_blocks] \<and>
        map snd stage =
          block_init block i out s r a p #
          replicate (nat n_blocks - 1) (block_init block out out 1 r a False)"
    if "make_stage eng r a i out n_blocks block s p = Inr stage"
    using stage_structure [OF pos make_stage_eq [OF that]] len by simp
  have resnet_returns: "(\<exists>st. make_stage eng r a i out n_blocks block s p = Inr st) \<longleftrightarrow>
        block_constructs eng (block_init block i out s r a p) \<and>
        (2 \<le> n_blocks \<longrightarrow> block_constructs eng (block_init block out out 1 r a False))"
    unfolding make_stage_cases using pos two by simp
  have wrn: "int (length wrn_stage) = n_blocks \<and>
        map fst wrn_stage = map block_name [0..<nat n_blocks] \<and>
        map snd wrn_stage =
          WrnBlock_init i out s d # replicate (nat n_blocks - 1) (WrnBlock_init out out 1 d)"
    if "wrn_make_stage eng i out n_blocks s d = Inr wrn_stage"
    using stage_structure [OF pos wrn_make_stage_eq [OF that]] len by simp
  have wrn_returns: "(\<exists>st. wrn_make_stage eng i out n_blocks s d = Inr st) \<longleftrightarrow>
        WrnBlock_constructs eng (WrnBlock_init i out s d) \<and>
        (2 \<le> n_blocks \<longrightarrow> WrnBlock_constructs eng (WrnBlock_init out out 1 d))"
    unfolding wrn_make_stage_cases using pos two by simp
  have flags: "wb_preactivate_both (WrnBlock_init i out s d) = (i \<noteq> out)"
    "\<not> wb_preactivate_both (WrnBlock_init out out 1 d)"
    by (simp_all add: WrnBlock_init_def)
  from resnet resnet_returns wrn wrn_returns flags show ?thesis by blast
qed

theorem stage_is_first_block_then_uniform_blocks_witness:
  "(1::int) \<le> 3 \<and>
   (\<exists>stage. make_stage shape_engine False True 16 32 3 BottleneckBlock_class 2 True = Inr stage \<and>
      int (length stage) = 3 \<and>
      map fst stage = map block_name [0..<nat 3] \<and>
      map snd stage =
        block_init BottleneckBlock_class 16 32 2 False True True #
        replicate (nat 3 - 1) (block_init BottleneckBlock_class 32 32 1 False True False)) \<and>
   (\<exists>stage. wrn_make_stage shape_engine 16 32 3 2 0 = Inr stage \<and>
      int (length stage) = 3 \<and>
      map fst stage = map block_name [0..<nat 3] \<and>
      map snd stage = WrnBlock_init 16 32 2 0 # replicate (nat 3 - 1) (WrnBlock_init 32 32 1 0) \<and>
      wb_preactivate_both (WrnBlock_init 16 32 2 0) \<and>
      \<not> wb_preactivate_both (WrnBlock_init 32 32 1 0))"
proof -
  have b: "block_constructs shape_engine (block_init BottleneckBlock_class 16 32 2 False True True)"
    "block_constructs shape_engine (block_init BottleneckBlock_class 32 32 1 False True False)"
    by (simp_all add: BottleneckBlock_constructs_def BottleneckBlock_init_def shape_engine_def
        conv2d_constructs_def batch_norm_constructs_def)
  have w: "WrnBlock_constructs shape_engine (WrnBlock_init 16 32 2 0)"
    "WrnBlock_constructs shape_engine (WrnBlock_init 32 32 1 0)"
    by (simp_all add: WrnBlock_constructs_def WrnBlock_init_def shape_engine_def
        conv2d_constructs_def batch_norm_constructs_def)
  have le: "(1::int) \<le> 3" by simp
  note inst = stage_is_first_block_then_uniform_blocks
    [where n_blocks = 3 and eng = shape_engine and r = False and a = True and i = 16
       and out = 32 and block = BottleneckBlock_class and s = 2 and p = True and d = 0,
     OF le]
  from inst [THEN conjunct2, THEN conjunct1] b obtain stage where
    stage: "make_stage shape_engine False True 16 32 3 BottleneckBlock_class 2 True = Inr stage"
    by auto
  from inst [THEN conjunct2, THEN conjunct2, THEN conjunct2] w obtain wrn_stage where
    wrn_stage: "wrn_make_stage shape_engine 16 32 3 2 0 = Inr wrn_stage"
    by auto
  from inst [where stage = stage, THEN conjunct1] stage
  have resnet: "int (length stage) = 3 \<and>
      map fst stage = map block_name [0..<nat 3] \<and>
      map snd stage =
        block_init BottleneckBlock_class 16 32 2 False True True #
        replicate (nat 3 - 1) (block_init BottleneckBlock_class 32 32 1 False True False)"
    by simp
  from inst [where wrn_stage = wrn_stage, THEN conjunct2, THEN conjunct2, THEN conjunct1] wrn_stage
  have wrn: "int (length wrn_stage) = 3 \<and>
      map fst wrn_stage = map block_name [0..<nat 3] \<and>
      map snd wrn_stage =
        WrnBlock_init 16 32 2 0 # replicate (nat 3 - 1) (WrnBlock_init 32 32 1 0) \<and>
      wb_preactivate_both (WrnBlock_init 16 32 2 0) \<and>
      \<not> wb_preactivate_both (WrnBlock_init 32 32 1 0)"
    by simp
  from stage resnet
  have first_half:
    "\<exists>stage. make_stage shape_engine False True 16 32 3 BottleneckBlock_class 2 True = Inr stage \<and>
      int (length stage) = 3 \<and>
      map fst stage = map block_name [0..<nat 3] \<and>
      map snd stage =
        block_init BottleneckBlock_class 16 32 2 False True True #
        replicate (nat 3 - 1) (block_init BottleneckBlock_class 32 32 1 False True False)"
    by (intro exI [of _ stage] conjI) (elim conjE, assumption)+
  from wrn_stage wrn
  have second_half:
    "\<exists>stage. wrn_make_stage shape_engine 16 32 3 2 0 = Inr stage \<and>
      int (length stage) = 3 \<and>
      map fst stage = map block_name [0..<nat 3] \<and>
      map snd stage = WrnBlock_init 16 32 2 0 # replicate (nat 3 - 1) (WrnBlock_init 32 32 1 0) \<and>
      wb_preactivate_both (WrnBlock_init 16 32 2 0) \<and>
      \<not> wb_preactivate_both (WrnBlock_init 32 32 1 0)"
    by (intro exI [of _ wrn_stage] conjI) (elim conjE, assumption)+
  from le first_half second_half show ?thesis by (intro conjI)
qed

section \<open>What a successful construction tells\<close>

lemma compute_feature_size_Inr:
  assumes "compute_feature_size eng fwd shape s = (Inr fs, s')"
  shows "\<exists>dummy y v ds.
           torch_zeros eng shape float32 = Some dummy \<and> fwd dummy = Some y \<and>
           tensor_view eng y [- 1] = Some v \<and> tensor_size eng v = fs # ds \<and>
           s' = s\<lparr> forward_conv_calls := forward_conv_calls s @ [(grad_enabled s, dummy)] \<rparr>"
  using assms
  by (auto simp: compute_feature_size_def Let_def split: option.splits list.splits bind_splits)

lemma no_grad_result:
  assumes "no_grad body s = (r, s')"
  shows "\<exists>s1. body (s\<lparr> grad_enabled := False \<rparr>) = (r, s1) \<and>
              s' = s1\<lparr> grad_enabled := grad_enabled s \<rparr>"
  using assms by (auto simp: no_grad_def split: prod.splits)

lemma probe_Inr:
  assumes "no_grad (compute_feature_size eng fwd shape) s = (Inr fs, s')"
  shows "\<exists>dummy y v ds.
           torch_zeros eng shape float32 = Some dummy \<and> fwd dummy = Some y \<and>
           tensor_view eng y [- 1] = Some v \<and> tensor_size eng v = fs # ds \<and>
           forward_conv_calls s' = forward_conv_calls s @ [(False, dummy)] \<and>
           grad_enabled s' = grad_enabled s"
proof -
  from no_grad_result [OF assms] obtain s1 where
    body: "compute_feature_size eng fwd shape (s\<lparr> grad_enabled := False \<rparr>) = (Inr fs, s1)"
    and s': "s' = s1\<lparr> grad_enabled := grad_enabled s \<rparr>" by blast
  from compute_feature_size_Inr [OF body] s' show ?thesis by auto
qed

lemma bind_result_Inr:
  "bind_result m f = Inr v \<longleftrightarrow> (\<exists>u. m = Inr u \<and> f u = Inr v)"
  by (cases m) (simp_all add: bind_result_def)

lemma Network_build_Inr:
  assumes "Network_build eng initialize cfg block n s = (Inr net, s')"
  shows "\<exists>p0 p1 p2 stage1 stage2 stage3 fs.
     list_index (preact_stage cfg) 0 = Inr p0 \<and>
     list_index (preact_stage cfg) 1 = Inr p1 \<and>
     list_index (preact_stage cfg) 2 = Inr p2 \<and>
     make_stage eng (remove_first_relu cfg) (add_last_bn cfg) (initial_channels cfg)
       (initial_channels cfg) n block 1 p0 = Inr stage1 \<and>
     make_stage eng (remove_first_relu cfg) (add_last_bn cfg) (initial_channels cfg)
       (initial_channels cfg * 2 * expansion block) n block 2 p1 = Inr stage2 \<and>
     make_stage eng (remove_first_relu cfg) (add_last_bn cfg) (initial_channels cfg * 2 * expansion block)
       (initial_channels cfg * 4 * expansion block) n block 2 p2 = Inr stage3 \<and>
     no_grad (compute_feature_size eng
        (forward_conv eng
           \<lparr> in_channels = dataset_n_channels cfg, out_channels = initial_channels cfg,
             kernel_size = 3, stride = 1, padding = 1, bias = False \<rparr>
           stage1 stage2 stage3 \<lparr> num_features = initial_channels cfg * 4 * expansion block, bn_training = True \<rparr>)
        [1, dataset_n_channels cfg, dataset_image_size cfg, dataset_image_size cfg]) s
       = (Inr fs, s') \<and>
     initialize (init_mode cfg) = None \<and>
     net = \<lparr> net_remove_first_relu = remove_first_relu cfg,
             net_add_last_bn = add_last_bn cfg,
             net_conv = \<lparr> in_channels = dataset_n_channels cfg, out_channels = initial_channels cfg,
                          kernel_size = 3, stride = 1, padding = 1, bias = False \<rparr>,
             net_stage1 = stage1, net_stage2 = stage2, net_stage3 = stage3,
             net_bn = \<lparr> num_features = initial_channels cfg * 4 * expansion block, bn_training = True \<rparr>,
             net_feature_size = fs,
             net_fc = \<lparr> in_features = fs, out_features = dataset_n_classes cfg \<rparr> \<rparr>"
  using assms
  unfolding Network_build_def n_channels_of_def Let_def
  by (auto simp: bind_result_Inr Conv2d_new_def BatchNorm2d_new_def Linear_new_def
      split: sum.splits prod.splits option.splits if_splits)

section \<open>Shapes through blocks and stages\<close>

lemma shape_engine_sel [simp]:
  "Conv2d_forward shape_engine path = conv2d_shape"
  "BatchNorm2d_forward shape_engine path = batch_norm_shape"
  "Linear_forward shape_engine path = linear_shape"
  "F_relu shape_engine = Some"
  "F_dropout shape_engine = dropout_shape"
  "F_adaptive_avg_pool2d shape_engine = adaptive_avg_pool2d_shape"
  "iadd shape_engine = iadd_shape"
  "tensor_view shape_engine = view_shape"
  "tensor_size shape_engine = (\<lambda>x. x)"
  "torch_zeros shape_engine = zeros_shape"
  by (simp_all add: shape_engine_def)

lemma reduced_pos: "1 \<le> n \<Longrightarrow> 1 \<le> s \<Longrightarrow> 1 \<le> reduced n s"
  by (simp add: reduced_def pos_imp_zdiv_nonneg_iff)

lemma reduced_one [simp]: "reduced n 1 = n"
  by (simp add: reduced_def)

lemma reduced_gt_one: "1 \<le> s \<Longrightarrow> 1 < reduced n s \<Longrightarrow> 1 < n"
  by (simp add: reduced_def pos_imp_zdiv_pos_iff)

text \<open>
  In training mode a normalisation needs more than one value per channel. Where all
  sizes are positive, that is a batch of more than one image or a spatial size above 1.
\<close>

lemma single_value_iff:
  fixes B H W :: int
  assumes "1 \<le> B" "1 \<le> H" "1 \<le> W"
  shows "B * H * W = 1 \<longleftrightarrow> B = 1 \<and> H = 1 \<and> W = 1"
  using assms by (auto simp: zmult_eq_1_iff)

lemma several_values:
  fixes B H W :: int
  assumes "1 \<le> B" "1 \<le> H" "1 \<le> W" "tr \<Longrightarrow> 1 < B \<or> 1 < H \<or> 1 < W"
  shows "\<not> (tr \<and> B * H * W = 1)"
  using assms by (auto simp: single_value_iff)

lemma several_values_before:
  fixes B H W :: int
  assumes "1 \<le> s" "tr \<Longrightarrow> 1 < B \<or> 1 < reduced H s \<or> 1 < reduced W s"
  shows "tr \<Longrightarrow> 1 < B \<or> 1 < H \<or> 1 < W"
  using assms by (auto dest: reduced_gt_one)

lemma batch_norm_mode_shape:
  assumes "\<not> (tr \<and> B * H * W = 1)"
  shows "batch_norm_shape (BatchNorm2d_train tr \<lparr> num_features = c, bn_training = t \<rparr>)
           [B, c, H, W] = Some [B, c, H, W]"
  using assms by (auto simp: BatchNorm2d_train_def)

lemma conv3_shape:
  assumes "1 \<le> i" "1 \<le> out" "1 \<le> s" "1 \<le> H" "1 \<le> W"
  shows "conv2d_shape \<lparr> in_channels = i, out_channels = out, kernel_size = 3, stride = s,
                         padding = 1, bias = b \<rparr> [B, i, H, W] =
         Some [B, out, reduced H s, reduced W s]"
  using assms by (simp add: reduced_def)

lemma conv1_shape:
  assumes "1 \<le> i" "1 \<le> out" "1 \<le> s" "1 \<le> H" "1 \<le> W"
  shows "conv2d_shape \<lparr> in_channels = i, out_channels = out, kernel_size = 1, stride = s,
                         padding = 0, bias = b \<rparr> [B, i, H, W] =
         Some [B, out, reduced H s, reduced W s]"
  using assms by (simp add: reduced_def)

lemma shortcut_shape:
  assumes "1 \<le> i" "1 \<le> out" "1 \<le> s" "1 \<le> H" "1 \<le> W" "i = out \<Longrightarrow> s = 1"
  shows "shortcut_forward shape_engine path
           (if i \<noteq> out
            then add_module ''conv''
                   \<lparr> in_channels = i, out_channels = out, kernel_size = 1,
                     stride = s, padding = 0, bias = False \<rparr> []
            else []) [B, i, H, W] = Some [B, out, reduced H s, reduced W s]"
  using assms by (auto simp add: shortcut_forward_def conv1_shape simp del: conv2d_shape.simps)

lemma iadd_same: "iadd_shape y y = Some y"
  by (simp add: iadd_shape_def list_all2_same)

lemma BasicBlock_shape:
  assumes "1 \<le> i" "1 \<le> out" "1 \<le> s" "1 \<le> B" "1 \<le> H" "1 \<le> W" "i = out \<Longrightarrow> s = 1"
    and mode: "tr \<Longrightarrow> 1 < B \<or> 1 < reduced H s \<or> 1 < reduced W s"
  shows "BasicBlock_forward shape_engine path
           (BasicBlock_train tr (BasicBlock_init i out s r a p)) [B, i, H, W] =
         Some [B, out, reduced H s, reduced W s]"
proof -
  have H': "1 \<le> reduced H s" and W': "1 \<le> reduced W s"
    using assms by (simp_all add: reduced_pos)
  have after: "\<not> (tr \<and> B * reduced H s * reduced W s = 1)"
    using assms(4) H' W' mode by (rule several_values)
  have before: "\<not> (tr \<and> B * H * W = 1)"
    using assms(4,5,6) several_values_before [OF assms(3) mode] by (rule several_values)
  show ?thesis
    using assms(1-7) H' W' before after
    by (simp add: BasicBlock_forward_def BasicBlock_init_def BasicBlock_train_def optional_bn_def
        conv3_shape shortcut_shape iadd_same batch_norm_mode_shape
        del: conv2d_shape.simps batch_norm_shape.simps)
qed

lemma BottleneckBlock_shape:
  assumes "1 \<le> i" "4 \<le> out" "1 \<le> s" "1 \<le> B" "1 \<le> H" "1 \<le> W" "i = out \<Longrightarrow> s = 1"
    and mode: "tr \<Longrightarrow> 1 < B \<or> 1 < reduced H s \<or> 1 < reduced W s"
  shows "BottleneckBlock_forward shape_engine path
           (BottleneckBlock_train tr (BottleneckBlock_init i out s r a p)) [B, i, H, W] =
         Some [B, out, reduced H s, reduced W s]"
proof -
  have H': "1 \<le> reduced H s" and W': "1 \<le> reduced W s"
    using assms by (simp_all add: reduced_pos)
  have bc: "1 \<le> out div 4" and out: "1 \<le> out"
    using assms by simp_all
  have after: "\<not> (tr \<and> B * reduced H s * reduced W s = 1)"
    using assms(4) H' W' mode by (rule several_values)
  have before: "\<not> (tr \<and> B * H * W = 1)"
    using assms(4,5,6) several_values_before [OF assms(3) mode] by (rule several_values)
  have c1: "\<And>o' x y. 1 \<le> i' \<Longrightarrow> 1 \<le> o' \<Longrightarrow> 1 \<le> x \<Longrightarrow> 1 \<le> y \<Longrightarrow>
      conv2d_shape \<lparr> in_channels = i', out_channels = o', kernel_size = 1, stride = 1,
                     padding = 0, bias = False \<rparr> [B, i', x, y] = Some [B, o', x, y]" for i'
    using conv1_shape [where s = 1] by simp
  show ?thesis
    using assms(1-7) H' W' bc out before after
    by (simp add: BottleneckBlock_forward_def BottleneckBlock_init_def BottleneckBlock_train_def
        optional_bn_def Let_def conv3_shape c1 shortcut_shape iadd_same batch_norm_mode_shape
        del: conv2d_shape.simps batch_norm_shape.simps)
qed

lemma shortcut_shape_conv:
  assumes "1 \<le> i" "1 \<le> out" "1 \<le> s" "1 \<le> H" "1 \<le> W"
  shows "shortcut_forward shape_engine path
           [(''conv'', \<lparr> in_channels = i, out_channels = out, kernel_size = 1,
                     stride = s, padding = 0, bias = False \<rparr>)] [B, i, H, W] =
         Some [B, out, reduced H s, reduced W s]"
  using assms by (simp add: shortcut_forward_def conv1_shape del: conv2d_shape.simps)

lemma shortcut_shape_id: "shortcut_forward eng path [] x = Some x"
  by (simp add: shortcut_forward_def)

lemma WrnBlock_shape:
  assumes "1 \<le> i" "1 \<le> out" "1 \<le> s" "1 \<le> B" "1 \<le> H" "1 \<le> W" "i = out \<Longrightarrow> s = 1" "d \<le> 1"
    and mode: "tr \<Longrightarrow> 1 < B \<or> 1 < reduced H s \<or> 1 < reduced W s"
  shows "WrnBlock_forward shape_engine path (WrnBlock_train tr (WrnBlock_init i out s d))
           [B, i, H, W] =
         Some [B, out, reduced H s, reduced W s]"
proof -
  have H': "1 \<le> reduced H s" and W': "1 \<le> reduced W s"
    using assms by (simp_all add: reduced_pos)
  have after: "\<not> (tr \<and> B * reduced H s * reduced W s = 1)"
    using assms(4) H' W' mode by (rule several_values)
  have before: "\<not> (tr \<and> B * H * W = 1)"
    using assms(4,5,6) several_values_before [OF assms(3) mode] by (rule several_values)
  show ?thesis
    using assms(1-8) H' W' before after
    by (simp add: WrnBlock_forward_def WrnBlock_init_def WrnBlock_train_def dropout_shape_def
        conv3_shape shortcut_shape_conv shortcut_shape_id iadd_same batch_norm_mode_shape
        del: conv2d_shape.simps batch_norm_shape.simps)
qed

text \<open>A block is built in training mode.\<close>

lemma block_train_True: "block_train True (block_init block i out s r a p) = block_init block i out s r a p"
  by (cases block)
    (simp_all add: BasicBlock_train_def BasicBlock_init_def BottleneckBlock_train_def
      BottleneckBlock_init_def BatchNorm2d_train_def Let_def)

lemma WrnBlock_train_True: "WrnBlock_train True (WrnBlock_init i out s d) = WrnBlock_init i out s d"
  by (simp add: WrnBlock_train_def WrnBlock_init_def BatchNorm2d_train_def)

lemma Sequential_uniform:
  assumes "\<And>nm b. (nm, b) \<in> set ms \<Longrightarrow> f (path @ [nm]) b X = Some X"
  shows "Sequential_forward f path ms X = Some X"
  using assms by (induction ms) auto

lemma stage_list_split:
  assumes "0 < k"
  shows "map (\<lambda>index. (block_name index, if index = 0 then first else other)) [0..<k] =
         (block_name 0, first) # map (\<lambda>index. (block_name index, other)) [1..<k]"
proof -
  from assms have "[0..<k] = 0 # [1..<k]"
    by (simp add: upt_conv_Cons)
  then show ?thesis by simp
qed

lemma stage_forward:
  assumes "0 < k"
    and "\<And>pth. f pth first x = Some X"
    and "\<And>pth. f pth other X = Some X"
  shows "Sequential_forward f path
           (map (\<lambda>index. (block_name index, if index = 0 then first else other)) [0..<k]) x =
         Some X"
proof -
  have "Sequential_forward f path (map (\<lambda>index. (block_name index, other)) [1..<k]) X = Some X"
    by (rule Sequential_uniform) (auto simp: assms(3))
  then show ?thesis
    by (simp add: stage_list_split [OF assms(1)] assms(2))
qed

lemma stage_forward_fails:
  assumes "0 < k" and "\<And>pth. f pth first x = None"
  shows "Sequential_forward f path
           (map (\<lambda>index. (block_name index, if index = 0 then first else other)) [0..<k]) x =
         None"
  by (simp add: stage_list_split [OF assms(1)] assms(2))

lemma Sequential_train_stage:
  "Sequential_train f mode
     (map (\<lambda>index. (block_name index, if index = 0 then first else other)) xs) =
   map (\<lambda>index. (block_name index, if index = 0 then f mode first else f mode other)) xs"
  by (induction xs) (simp_all add: Sequential_train_def)

lemma stage_train_True:
  assumes "make_stage eng r a i out n block s p = Inr stage"
  shows "Sequential_train block_train True stage = stage"
  unfolding make_stage_eq [OF assms] Sequential_train_stage block_train_True ..

lemma wrn_stage_train_True:
  assumes "wrn_make_stage eng i out n s d = Inr stage"
  shows "Sequential_train WrnBlock_train True stage = stage"
  unfolding wrn_make_stage_eq [OF assms] Sequential_train_stage WrnBlock_train_True ..

lemma block_shape:
  assumes "1 \<le> i" "1 \<le> out" "1 \<le> s" "1 \<le> B" "1 \<le> H" "1 \<le> W" "i = out \<Longrightarrow> s = 1"
    and "block = BottleneckBlock_class \<Longrightarrow> 4 \<le> out"
    and "tr \<Longrightarrow> 1 < B \<or> 1 < reduced H s \<or> 1 < reduced W s"
  shows "block_forward shape_engine path (block_train tr (block_init block i out s r a p))
           [B, i, H, W] =
         Some [B, out, reduced H s, reduced W s]"
  using assms by (cases block) (simp_all add: BasicBlock_shape BottleneckBlock_shape)

lemma resnet_stage_shape:
  assumes "make_stage eng r a i out n block s p = Inr stage" "1 \<le> n"
    and "1 \<le> i" "1 \<le> out" "1 \<le> s" "1 \<le> B" "1 \<le> H" "1 \<le> W" "i = out \<Longrightarrow> s = 1"
    and "block = BottleneckBlock_class \<Longrightarrow> 4 \<le> out"
    and mode: "tr \<Longrightarrow> 1 < B \<or> 1 < reduced H s \<or> 1 < reduced W s"
  shows "Sequential_forward (block_forward shape_engine) path
           (Sequential_train block_train tr stage) [B, i, H, W] =
         Some [B, out, reduced H s, reduced W s]"
proof -
  have pos: "0 < nat n" using assms(2) by simp
  have H': "1 \<le> reduced H s" and W': "1 \<le> reduced W s"
    using assms by (simp_all add: reduced_pos)
  have first: "\<And>pth. block_forward shape_engine pth
      (block_train tr (block_init block i out s r a p)) [B, i, H, W] =
      Some [B, out, reduced H s, reduced W s]"
    using assms by (intro block_shape) simp_all
  have other: "\<And>pth. block_forward shape_engine pth
      (block_train tr (block_init block out out 1 r a False))
      [B, out, reduced H s, reduced W s] = Some [B, out, reduced H s, reduced W s]"
    using block_shape [of out out 1 B "reduced H s" "reduced W s" block tr _ r a False]
      assms H' W' by simp
  show ?thesis
    unfolding make_stage_eq [OF assms(1)] Sequential_train_stage
    by (rule stage_forward [OF pos, of "block_forward shape_engine", OF first other])
qed

lemma wrn_stage_shape:
  assumes "wrn_make_stage eng i out n s d = Inr stage" "1 \<le> n"
    and "1 \<le> i" "1 \<le> out" "1 \<le> s" "1 \<le> B" "1 \<le> H" "1 \<le> W" "i = out \<Longrightarrow> s = 1" "d \<le> 1"
    and mode: "tr \<Longrightarrow> 1 < B \<or> 1 < reduced H s \<or> 1 < reduced W s"
  shows "Sequential_forward (WrnBlock_forward shape_engine) path
           (Sequential_train WrnBlock_train tr stage) [B, i, H, W] =
         Some [B, out, reduced H s, reduced W s]"
proof -
  have pos: "0 < nat n" using assms(2) by simp
  have H': "1 \<le> reduced H s" and W': "1 \<le> reduced W s"
    using assms by (simp_all add: reduced_pos)
  have first: "\<And>pth. WrnBlock_forward shape_engine pth
      (WrnBlock_train tr (WrnBlock_init i out s d)) [B, i, H, W] =
      Some [B, out, reduced H s, reduced W s]"
    using assms by (intro WrnBlock_shape) simp_all
  have other: "\<And>pth. WrnBlock_forward shape_engine pth
      (WrnBlock_train tr (WrnBlock_init out out 1 d))
      [B, out, reduced H s, reduced W s] = Some [B, out, reduced H s, reduced W s]"
    using WrnBlock_shape [of out out 1 B "reduced H s" "reduced W s" d tr _] assms H' W'
    by simp
  show ?thesis
    unfolding wrn_make_stage_eq [OF assms(1)] Sequential_train_stage
    by (rule stage_forward [OF pos, of "WrnBlock_forward shape_engine", OF first other])
qed

lemma empty_stage:
  assumes "make_stage eng r a i out n block s p = Inr stage" "n < 1"
  shows "stage = []"
  using make_stage_eq [OF assms(1)] assms(2) by simp

lemma wrn_empty_stage:
  assumes "wrn_make_stage eng i out n s d = Inr stage" "n < 1"
  shows "stage = []"
  using wrn_make_stage_eq [OF assms(1)] assms(2) by simp

lemma Bottleneck_too_narrow:
  assumes "out < 4"
  shows "BottleneckBlock_forward shape_engine path (BottleneckBlock_init i out s r a p) [B, C, H, W] = None"
proof -
  have "\<not> 1 \<le> out div 4" using assms by simp
  then show ?thesis
    by (simp add: BottleneckBlock_forward_def BottleneckBlock_init_def Let_def split: bind_split)
qed

lemma WrnBlock_no_channels:
  assumes "out < 1"
  shows "WrnBlock_forward shape_engine path (WrnBlock_init i out s d) [B, C, H, W] = None"
  using assms
  by (simp add: WrnBlock_forward_def WrnBlock_init_def split: bind_split)

lemma WrnBlock_bad_rate:
  assumes "1 < d"
  shows "WrnBlock_forward shape_engine path (WrnBlock_init i out s d) x = None"
  using assms
  by (simp add: WrnBlock_forward_def WrnBlock_init_def dropout_shape_def split: bind_split)

text \<open>
  Inference mode lifts a check of the normalisation and adds none: what a block, a
  stage or a network returns in any mode, it returns in inference mode too.
\<close>

lemma batch_norm_eval:
  assumes "batch_norm_shape l x = Some y"
  shows "batch_norm_shape (BatchNorm2d_train False l) x = Some y"
  using assms
  by (cases "(l, x)" rule: batch_norm_shape.cases)
    (auto simp: BatchNorm2d_train_def split: if_splits)

lemma optional_bn_eval:
  assumes "optional_bn shape_engine path bn x = Some y"
  shows "optional_bn shape_engine path (map_option (BatchNorm2d_train False) bn) x = Some y"
  using assms by (cases bn) (simp_all add: optional_bn_def batch_norm_eval)

lemma BasicBlock_eval:
  assumes "BasicBlock_forward shape_engine path b x = Some y"
  shows "BasicBlock_forward shape_engine path (BasicBlock_train False b) x = Some y"
  using assms unfolding BasicBlock_forward_def BasicBlock_train_def
  by (auto simp: batch_norm_eval optional_bn_eval split: bind_splits if_splits)

lemma BottleneckBlock_eval:
  assumes "BottleneckBlock_forward shape_engine path b x = Some y"
  shows "BottleneckBlock_forward shape_engine path (BottleneckBlock_train False b) x = Some y"
  using assms unfolding BottleneckBlock_forward_def BottleneckBlock_train_def
  by (auto simp: batch_norm_eval optional_bn_eval split: bind_splits if_splits)

lemma block_eval:
  assumes "block_forward shape_engine path b x = Some y"
  shows "block_forward shape_engine path (block_train False b) x = Some y"
  using assms by (cases b) (simp_all add: BasicBlock_eval BottleneckBlock_eval)

lemma WrnBlock_eval:
  assumes "WrnBlock_forward shape_engine path b x = Some y"
  shows "WrnBlock_forward shape_engine path (WrnBlock_train False b) x = Some y"
  using assms unfolding WrnBlock_forward_def WrnBlock_train_def
  by (auto simp: batch_norm_eval dropout_shape_def split: bind_splits if_splits)

lemma Sequential_eval:
  assumes "\<And>pth b x y. f pth b x = Some y \<Longrightarrow> f pth (g False b) x = Some y"
    and "Sequential_forward f path ms x = Some y"
  shows "Sequential_forward f path (Sequential_train g False ms) x = Some y"
  using assms(2)
proof (induction ms arbitrary: x)
  case Nil
  then show ?case by (simp add: Sequential_train_def)
next
  case (Cons m ms)
  obtain nm b where m: "m = (nm, b)" by (cases m)
  from Cons.prems obtain z where
    z: "f (path @ [nm]) b x = Some z" and rest: "Sequential_forward f path ms z = Some y"
    unfolding m by (auto split: bind_splits)
  from assms(1) [OF z] Cons.IH [OF rest] show ?case
    unfolding m by (simp add: Sequential_train_def)
qed

section \<open>Shapes through the networks\<close>

lemma expansion_pos: "1 \<le> expansion block"
  by (cases block) simp_all

lemma widths:
  fixes ic e :: int
  assumes "1 \<le> ic" "1 \<le> e"
  shows "ic < ic * 2 * e" "ic * 2 * e < ic * 4 * e" "ic < ic * 4 * e"
    "1 \<le> ic * 2 * e" "1 \<le> ic * 4 * e" "4 \<le> ic \<Longrightarrow> 4 \<le> ic * 2 * e"
    "4 \<le> ic \<Longrightarrow> 4 \<le> ic * 4 * e"
proof -
  have "ic * 1 \<le> ic * e"
    using assms by (intro mult_left_mono) simp_all
  then have q: "ic \<le> ic * e" by simp
  have two: "ic * 2 * e = 2 * (ic * e)" and four: "ic * 4 * e = 4 * (ic * e)" by simp_all
  show "ic < ic * 2 * e" "ic * 2 * e < ic * 4 * e" "ic < ic * 4 * e"
    "1 \<le> ic * 2 * e" "1 \<le> ic * 4 * e"
    unfolding two four using q assms(1) by linarith+
  show "4 \<le> ic \<Longrightarrow> 4 \<le> ic * 2 * e" "4 \<le> ic \<Longrightarrow> 4 \<le> ic * 4 * e"
    unfolding two four using q by linarith+
qed

lemma Network_init_Inr:
  assumes "Network_init eng initialize cfg s = (Inr net, s')"
  shows "\<exists>block k.
           (block_type cfg = ''basic'' \<and> block = BasicBlock_class \<and> k = 6 \<or>
            block_type cfg = ''bottleneck'' \<and> block = BottleneckBlock_class \<and> k = 9) \<and>
           (depth cfg - 2) div k * k + 2 = depth cfg \<and>
           Network_build eng initialize cfg block ((depth cfg - 2) div k) s = (Inr net, s')"
  using assms by (auto simp: Network_init_def Let_def split: if_splits)

lemma stem_shape:
  assumes "conv2d_shape \<lparr> in_channels = C, out_channels = ic, kernel_size = 3, stride = 1,
                           padding = 1, bias = False \<rparr> [B, C', H, W] = Some y"
  shows "1 \<le> ic \<and> C' = C \<and> 1 \<le> C \<and> 1 \<le> H \<and> 1 \<le> W \<and> y = [B, ic, H, W]"
  using assms by (auto split: if_splits)

lemma pool_flatten:
  assumes "1 \<le> c" "1 \<le> H" "1 \<le> W"
  shows "adaptive_avg_pool2d_shape [B, c, H, W] 1 = Some [B, c, 1, 1]"
  using assms by simp

lemma view_flat: "0 \<le> c \<Longrightarrow> 0 \<le> B \<Longrightarrow> view_shape [B, c, 1, 1] [- 1] = Some [B * c]"
  by (simp add: view_shape_def)

lemma view_batch: "1 \<le> B \<Longrightarrow> view_shape [B, c, 1, 1] [B, - 1] = Some [B, c]"
  by (simp add: view_shape_def Let_def)

lemma flatten_classify_shape:
  assumes "1 \<le> B"
  shows "flatten_classify shape_engine \<lparr> in_features = c, out_features = k \<rparr> [B, c, 1, 1] =
         Some [B, k]"
  using assms by (simp add: flatten_classify_def view_batch linear_shape_def)

lemma several_values_twice:
  fixes B H W :: int
  assumes "tr \<Longrightarrow> 1 < B \<or> 1 < reduced (reduced H 2) 2 \<or> 1 < reduced (reduced W 2) 2"
  shows "tr \<Longrightarrow> 1 < B \<or> 1 < reduced H 2 \<or> 1 < reduced W 2"
    and "tr \<Longrightarrow> 1 < B \<or> 1 < H \<or> 1 < W"
  using assms reduced_gt_one [of 2 "reduced H 2"] reduced_gt_one [of 2 "reduced W 2"]
    reduced_gt_one [of 2 H] reduced_gt_one [of 2 W]
  by auto

lemma resnet_probe_conditions:
  assumes st1: "make_stage eng r a ic ic n block 1 p0 = Inr st1"
    and st2: "make_stage eng r a ic (ic * 2 * expansion block) n block 2 p1 = Inr st2"
    and st3: "make_stage eng r a (ic * 2 * expansion block) (ic * 4 * expansion block) n block 2 p2
                = Inr st3"
    and fwd: "forward_conv shape_engine
                \<lparr> in_channels = C, out_channels = ic, kernel_size = 3, stride = 1,
                  padding = 1, bias = False \<rparr>
                st1 st2 st3 \<lparr> num_features = ic * 4 * expansion block, bn_training = True \<rparr>
                [B, C', H, W] = Some y"
  shows "1 \<le> ic \<and> 1 \<le> n \<and> (block = BottleneckBlock_class \<longrightarrow> 4 \<le> ic) \<and> C' = C \<and>
         1 \<le> C \<and> 1 \<le> H \<and> 1 \<le> W"
proof -
  from fwd obtain x0 where
    x0: "conv2d_shape \<lparr> in_channels = C, out_channels = ic, kernel_size = 3, stride = 1,
                         padding = 1, bias = False \<rparr> [B, C', H, W] = Some x0"
    and rest: "do {
       x \<leftarrow> Sequential_forward (block_forward shape_engine) [''stage1''] st1 x0;
       x \<leftarrow> Sequential_forward (block_forward shape_engine) [''stage2''] st2 x;
       x \<leftarrow> Sequential_forward (block_forward shape_engine) [''stage3''] st3 x;
       n \<leftarrow> batch_norm_shape \<lparr> num_features = ic * 4 * expansion block, bn_training = True \<rparr> x;
       x \<leftarrow> Some n;
       adaptive_avg_pool2d_shape x 1 } = Some y"
    by (auto simp: forward_conv_def split: bind_splits)
  from stem_shape [OF x0] have ic: "1 \<le> ic" and C: "C' = C" and C1: "1 \<le> C"
    and H: "1 \<le> H" and W: "1 \<le> W" and x0_eq: "x0 = [B, ic, H, W]" by simp_all
  have n: "1 \<le> n"
  proof (rule ccontr)
    assume "\<not> 1 \<le> n"
    then have "n < 1" by simp
    with st1 st2 st3 have "st1 = []" "st2 = []" "st3 = []"
      by (auto dest: empty_stage)
    with rest x0_eq have eq: "ic = ic * 4 * expansion block"
      by (auto split: bind_splits if_splits)
    with widths(3) [OF ic expansion_pos, of block] show False by simp
  qed
  have wide: "4 \<le> ic" if "block = BottleneckBlock_class"
  proof (rule ccontr)
    assume "\<not> 4 \<le> ic"
    then have "ic < 4" by simp
    then have first: "\<And>pth. block_forward shape_engine pth (block_init block ic ic 1 r a p0) x0 = None"
      using that x0_eq by (simp add: Bottleneck_too_narrow)
    have pos: "0 < nat n" using n by simp
    have "Sequential_forward (block_forward shape_engine) [''stage1''] st1 x0 = None"
      unfolding make_stage_eq [OF st1]
      by (rule stage_forward_fails [where f = "block_forward shape_engine", OF pos first])
    with rest show False by simp
  qed
  from ic n wide C C1 H W show ?thesis by simp
qed

lemma resnet_forward_conv_shape:
  assumes st1: "make_stage eng r a ic ic n block 1 p0 = Inr st1"
    and st2: "make_stage eng r a ic (ic * 2 * expansion block) n block 2 p1 = Inr st2"
    and st3: "make_stage eng r a (ic * 2 * expansion block) (ic * 4 * expansion block) n block 2 p2
                = Inr st3"
    and ic: "1 \<le> ic" and n: "1 \<le> n" and wide: "block = BottleneckBlock_class \<Longrightarrow> 4 \<le> ic"
    and B: "1 \<le> B" and C: "1 \<le> C" and H: "1 \<le> H" and W: "1 \<le> W"
    and mode: "tr \<Longrightarrow> 1 < B \<or> 1 < reduced (reduced H 2) 2 \<or> 1 < reduced (reduced W 2) 2"
  shows "conv2d_shape \<lparr> in_channels = C, out_channels = ic, kernel_size = 3, stride = 1,
                         padding = 1, bias = False \<rparr> [B, C, H, W] = Some [B, ic, H, W]"
    and "Sequential_forward (block_forward shape_engine) [''stage1'']
           (Sequential_train block_train tr st1) [B, ic, H, W] =
         Some [B, ic, H, W]"
    and "Sequential_forward (block_forward shape_engine) [''stage2'']
           (Sequential_train block_train tr st2) [B, ic, H, W] =
         Some [B, ic * 2 * expansion block, reduced H 2, reduced W 2]"
    and "Sequential_forward (block_forward shape_engine) [''stage3'']
           (Sequential_train block_train tr st3)
           [B, ic * 2 * expansion block, reduced H 2, reduced W 2] =
         Some [B, ic * 4 * expansion block, reduced (reduced H 2) 2, reduced (reduced W 2) 2]"
    and "forward_conv shape_engine
           \<lparr> in_channels = C, out_channels = ic, kernel_size = 3, stride = 1,
             padding = 1, bias = False \<rparr>
           (Sequential_train block_train tr st1) (Sequential_train block_train tr st2)
           (Sequential_train block_train tr st3)
           (BatchNorm2d_train tr \<lparr> num_features = ic * 4 * expansion block, bn_training = True \<rparr>)
           [B, C, H, W] =
         Some [B, ic * 4 * expansion block, 1, 1]"
proof -
  let ?e = "expansion block"
  have e: "1 \<le> ?e" by (rule expansion_pos)
  have c1: "1 \<le> ic * 2 * ?e" and c2: "1 \<le> ic * 4 * ?e"
    using widths [OF ic e] by simp_all
  have ne1: "ic \<noteq> ic * 2 * ?e"
    by (rule less_imp_neq [OF widths(1) [OF ic e]])
  have ne2: "ic * 2 * ?e \<noteq> ic * 4 * ?e"
    by (rule less_imp_neq [OF widths(2) [OF ic e]])
  have w1: "4 \<le> ic * 2 * ?e" and w2: "4 \<le> ic * 4 * ?e" if "block = BottleneckBlock_class"
    using that wide widths(6,7) [OF ic e] by simp_all
  have H2: "1 \<le> reduced H 2" and W2: "1 \<le> reduced W 2"
    using H W by (simp_all add: reduced_pos)
  have H4: "1 \<le> reduced (reduced H 2) 2" and W4: "1 \<le> reduced (reduced W 2) 2"
    using H2 W2 by (simp_all add: reduced_pos)
  note mode2 = several_values_twice(1) [OF mode]
  note mode1 = several_values_twice(2) [OF mode]
  have mode1': "tr \<Longrightarrow> 1 < B \<or> 1 < reduced H 1 \<or> 1 < reduced W 1"
    using mode1 by simp
  have last: "\<not> (tr \<and> B * reduced (reduced H 2) 2 * reduced (reduced W 2) 2 = 1)"
    using B H4 W4 mode by (rule several_values)
  show stem: "conv2d_shape \<lparr> in_channels = C, out_channels = ic, kernel_size = 3, stride = 1,
                         padding = 1, bias = False \<rparr> [B, C, H, W] = Some [B, ic, H, W]"
    using conv3_shape [of C ic 1 H W False B] C ic H W by simp
  show s1: "Sequential_forward (block_forward shape_engine) [''stage1'']
           (Sequential_train block_train tr st1) [B, ic, H, W] =
         Some [B, ic, H, W]"
    using resnet_stage_shape [OF st1 n ic ic _ B H W _ _ mode1', where path = "[''stage1'']"] wide
    by simp
  show s2: "Sequential_forward (block_forward shape_engine) [''stage2'']
           (Sequential_train block_train tr st2) [B, ic, H, W] =
         Some [B, ic * 2 * ?e, reduced H 2, reduced W 2]"
    using resnet_stage_shape [OF st2 n ic c1 _ B H W _ _ mode2, where path = "[''stage2'']"] ne1 w1
    by simp
  show s3: "Sequential_forward (block_forward shape_engine) [''stage3'']
           (Sequential_train block_train tr st3)
           [B, ic * 2 * ?e, reduced H 2, reduced W 2] =
         Some [B, ic * 4 * ?e, reduced (reduced H 2) 2, reduced (reduced W 2) 2]"
    using resnet_stage_shape [OF st3 n c1 c2 _ B H2 W2 _ _ mode, where path = "[''stage3'']"] ne2 w2
    by simp
  show "forward_conv shape_engine
           \<lparr> in_channels = C, out_channels = ic, kernel_size = 3, stride = 1,
             padding = 1, bias = False \<rparr>
           (Sequential_train block_train tr st1) (Sequential_train block_train tr st2)
           (Sequential_train block_train tr st3)
           (BatchNorm2d_train tr \<lparr> num_features = ic * 4 * ?e, bn_training = True \<rparr>)
           [B, C, H, W] =
         Some [B, ic * 4 * ?e, 1, 1]"
    using stem s1 s2 s3 c2 H4 W4 last
    by (simp add: forward_conv_def batch_norm_mode_shape
        del: conv2d_shape.simps batch_norm_shape.simps)
qed

text \<open>
  A network as it was built is in training mode: its forward pass raises in the last
  normalisation exactly when that sees a single value per channel.
\<close>

lemma resnet_forward_conv_built:
  assumes st1: "make_stage eng r a ic ic n block 1 p0 = Inr st1"
    and st2: "make_stage eng r a ic (ic * 2 * expansion block) n block 2 p1 = Inr st2"
    and st3: "make_stage eng r a (ic * 2 * expansion block) (ic * 4 * expansion block) n block 2 p2
                = Inr st3"
    and ic: "1 \<le> ic" and n: "1 \<le> n" and wide: "block = BottleneckBlock_class \<Longrightarrow> 4 \<le> ic"
    and B: "1 \<le> B" and C: "1 \<le> C" and H: "1 \<le> H" and W: "1 \<le> W"
  shows "forward_conv shape_engine
           \<lparr> in_channels = C, out_channels = ic, kernel_size = 3, stride = 1,
             padding = 1, bias = False \<rparr>
           st1 st2 st3 \<lparr> num_features = ic * 4 * expansion block, bn_training = True \<rparr>
           [B, C, H, W] =
         (if B * reduced (reduced H 2) 2 * reduced (reduced W 2) 2 = 1 then None
          else Some [B, ic * 4 * expansion block, 1, 1])"
proof -
  let ?conv = "\<lparr> in_channels = C, out_channels = ic, kernel_size = 3, stride = 1,
                  padding = 1, bias = False \<rparr>"
  let ?bn = "\<lparr> num_features = ic * 4 * expansion block, bn_training = True \<rparr>"
  let ?H4 = "reduced (reduced H 2) 2" and ?W4 = "reduced (reduced W 2) 2"
  have H4: "1 \<le> ?H4" and W4: "1 \<le> ?W4"
    using H W by (simp_all add: reduced_pos)
  have tr: "Sequential_train block_train True st1 = st1"
    "Sequential_train block_train True st2 = st2" "Sequential_train block_train True st3 = st3"
    "BatchNorm2d_train True ?bn = ?bn"
    using stage_train_True [OF st1] stage_train_True [OF st2] stage_train_True [OF st3]
    by (simp_all add: BatchNorm2d_train_def)
  show ?thesis
  proof (cases "B * ?H4 * ?W4 = 1")
    case False
    then have mode: "True \<Longrightarrow> 1 < B \<or> 1 < ?H4 \<or> 1 < ?W4"
      using single_value_iff [OF B H4 W4] B H4 W4 by auto
    from resnet_forward_conv_shape(5) [OF st1 st2 st3 ic n wide B C H W mode, where tr = True]
      False
    show ?thesis unfolding tr by simp
  next
    case True
    have nomode: "False \<Longrightarrow> 1 < B \<or> 1 < ?H4 \<or> 1 < ?W4" by simp
    note e1 = resnet_forward_conv_shape(1) [OF st1 st2 st3 ic n wide B C H W nomode]
    note e2 = resnet_forward_conv_shape(2) [OF st1 st2 st3 ic n wide B C H W nomode]
    note e3 = resnet_forward_conv_shape(3) [OF st1 st2 st3 ic n wide B C H W nomode]
    note e4 = resnet_forward_conv_shape(4) [OF st1 st2 st3 ic n wide B C H W nomode]
    have "forward_conv shape_engine ?conv st1 st2 st3 ?bn [B, C, H, W] = None"
    proof (rule ccontr)
      assume "forward_conv shape_engine ?conv st1 st2 st3 ?bn [B, C, H, W] \<noteq> None"
      then obtain y where "forward_conv shape_engine ?conv st1 st2 st3 ?bn [B, C, H, W] = Some y"
        by auto
      then obtain x0 x1 x2 x3 z where
        x0: "conv2d_shape ?conv [B, C, H, W] = Some x0"
        and x1: "Sequential_forward (block_forward shape_engine) [''stage1''] st1 x0 = Some x1"
        and x2: "Sequential_forward (block_forward shape_engine) [''stage2''] st2 x1 = Some x2"
        and x3: "Sequential_forward (block_forward shape_engine) [''stage3''] st3 x2 = Some x3"
        and z: "batch_norm_shape ?bn x3 = Some z"
        unfolding forward_conv_def by (auto split: bind_splits simp del: conv2d_shape.simps
            batch_norm_shape.simps)
      from x0 e1 have x0_eq: "x0 = [B, ic, H, W]" by simp
      from Sequential_eval [of "block_forward shape_engine" block_train, OF block_eval x1]
        e2 x0_eq
      have x1_eq: "x1 = [B, ic, H, W]" by simp
      from Sequential_eval [of "block_forward shape_engine" block_train, OF block_eval x2]
        e3 x1_eq
      have x2_eq: "x2 = [B, ic * 2 * expansion block, reduced H 2, reduced W 2]" by simp
      from Sequential_eval [of "block_forward shape_engine" block_train, OF block_eval x3]
        e4 x2_eq
      have x3_eq: "x3 = [B, ic * 4 * expansion block, ?H4, ?W4]" by simp
      from z True show False unfolding x3_eq by simp
    qed
    with True show ?thesis by simp
  qed
qed

lemma resnet_init_shapes:
  assumes init: "Network_init shape_engine initialize cfg s = (Inr net, s')"
  defines "block \<equiv> (if block_type cfg = ''basic'' then BasicBlock_class else BottleneckBlock_class)"
  defines "ic \<equiv> initial_channels cfg"
  shows "\<exists>k n p0 p1 p2.
      (block_type cfg = ''basic'' \<and> k = 6 \<or> block_type cfg = ''bottleneck'' \<and> k = 9) \<and>
      n = (depth cfg - 2) div k \<and> n * k + 2 = depth cfg \<and> 1 \<le> n \<and>
      1 \<le> ic \<and> (block = BottleneckBlock_class \<longrightarrow> 4 \<le> ic) \<and>
      1 \<le> dataset_image_size cfg \<and> 1 \<le> dataset_n_channels cfg \<and>
      net_conv net = \<lparr> in_channels = dataset_n_channels cfg, out_channels = ic,
                        kernel_size = 3, stride = 1, padding = 1, bias = False \<rparr> \<and>
      make_stage shape_engine (remove_first_relu cfg) (add_last_bn cfg) ic ic n block 1 p0 = Inr (net_stage1 net) \<and>
      make_stage shape_engine (remove_first_relu cfg) (add_last_bn cfg) ic (ic * 2 * expansion block) n block 2 p1
        = Inr (net_stage2 net) \<and>
      make_stage shape_engine (remove_first_relu cfg) (add_last_bn cfg) (ic * 2 * expansion block)
        (ic * 4 * expansion block) n block 2 p2 = Inr (net_stage3 net) \<and>
      net_bn net = \<lparr> num_features = ic * 4 * expansion block, bn_training = True \<rparr> \<and>
      net_feature_size net = ic * 4 * expansion block \<and>
      net_fc net = \<lparr> in_features = ic * 4 * expansion block,
                      out_features = dataset_n_classes cfg \<rparr>"
proof -
  from Network_init_Inr [OF init] obtain blk k where
    kind: "block_type cfg = ''basic'' \<and> blk = BasicBlock_class \<and> k = 6 \<or>
           block_type cfg = ''bottleneck'' \<and> blk = BottleneckBlock_class \<and> k = 9"
    and rel: "(depth cfg - 2) div k * k + 2 = depth cfg"
    and build: "Network_build shape_engine initialize cfg blk ((depth cfg - 2) div k) s = (Inr net, s')"
    by blast
  from kind have blk: "blk = block" by (auto simp: block_def)
  let ?n = "(depth cfg - 2) div k"
  let ?conv = "\<lparr> in_channels = dataset_n_channels cfg, out_channels = ic,
                  kernel_size = 3, stride = 1, padding = 1, bias = False \<rparr>"
  let ?bn = "\<lparr> num_features = ic * 4 * expansion block, bn_training = True \<rparr>"
  let ?S = "dataset_image_size cfg"
  from Network_build_Inr [OF build] obtain p0 p1 p2 st1 st2 st3 fs where
    st1: "make_stage shape_engine (remove_first_relu cfg) (add_last_bn cfg) ic ic ?n block 1 p0 = Inr st1"
    and st2: "make_stage shape_engine (remove_first_relu cfg) (add_last_bn cfg) ic (ic * 2 * expansion block)
                ?n block 2 p1 = Inr st2"
    and st3: "make_stage shape_engine (remove_first_relu cfg) (add_last_bn cfg) (ic * 2 * expansion block)
                (ic * 4 * expansion block) ?n block 2 p2 = Inr st3"
    and probe: "no_grad (compute_feature_size shape_engine
                   (forward_conv shape_engine ?conv st1 st2 st3 ?bn)
                   [1, dataset_n_channels cfg, ?S, ?S]) s = (Inr fs, s')"
    and net: "net = \<lparr> net_remove_first_relu = remove_first_relu cfg,
             net_add_last_bn = add_last_bn cfg,
             net_conv = ?conv,
             net_stage1 = st1, net_stage2 = st2, net_stage3 = st3,
             net_bn = ?bn,
             net_feature_size = fs,
             net_fc = \<lparr> in_features = fs, out_features = dataset_n_classes cfg \<rparr> \<rparr>"
    unfolding blk ic_def by blast
  from probe_Inr [OF probe] obtain dummy y v ds where
    dummy: "zeros_shape [1, dataset_n_channels cfg, ?S, ?S] float32 = Some dummy"
    and y: "forward_conv shape_engine ?conv st1 st2 st3 ?bn dummy = Some y"
    and v: "view_shape y [- 1] = Some v" and fs: "v = fs # ds"
    by auto
  from dummy have dummy_eq: "dummy = [1, dataset_n_channels cfg, ?S, ?S]"
    by (simp add: zeros_shape_def split: if_splits)
  note y' = y [unfolded dummy_eq]
  from resnet_probe_conditions [OF st1 st2 st3 y']
  have ic: "1 \<le> ic" and n: "1 \<le> ?n" and wide: "block = BottleneckBlock_class \<longrightarrow> 4 \<le> ic"
    and S: "1 \<le> ?S" and C: "1 \<le> dataset_n_channels cfg" by simp_all
  from wide have wide': "block = BottleneckBlock_class \<Longrightarrow> 4 \<le> ic" by simp
  have one: "(1::int) \<le> 1" by simp
  from resnet_forward_conv_built [OF st1 st2 st3 ic n wide' one C S S] y'
  have y_eq: "y = [1, ic * 4 * expansion block, 1, 1]" by (simp split: if_splits)
  have c2: "1 \<le> ic * 4 * expansion block"
    by (rule widths(5) [OF ic expansion_pos])
  from v fs y_eq c2 have fs_eq: "fs = ic * 4 * expansion block"
    by (simp add: view_flat)
  from kind have kind': "block_type cfg = ''basic'' \<and> k = 6 \<or>
      block_type cfg = ''bottleneck'' \<and> k = 9" by blast
  have sel: "net_conv net = ?conv" "net_stage1 net = st1" "net_stage2 net = st2"
    "net_stage3 net = st3" "net_bn net = ?bn" "net_feature_size net = ic * 4 * expansion block"
    "net_fc net = \<lparr> in_features = ic * 4 * expansion block,
                      out_features = dataset_n_classes cfg \<rparr>"
    by (simp_all add: net fs_eq)
  show ?thesis
    apply (rule exI [of _ k], rule exI [of _ ?n], rule exI [of _ p0], rule exI [of _ p1],
        rule exI [of _ p2])
    apply (intro conjI)
                 apply (rule kind')
                apply (rule refl)
               apply (rule rel)
              apply (rule n)
             apply (rule ic)
            apply (rule wide)
            apply (rule S)
           apply (rule C)
          apply (rule sel(1))
         apply (simp only: sel st1)
        apply (simp only: sel st2)
       apply (simp only: sel st3)
      apply (rule sel(5))
     apply (rule sel(6))
    apply (rule sel(7))
    done
qed

lemma reduced_twice_one:
  assumes "1 \<le> H"
  shows "reduced (reduced H 2) 2 = 1 \<longleftrightarrow> H \<le> 4"
  using assms unfolding reduced_def by auto

lemma single_value_at_end:
  assumes "1 \<le> B" "1 \<le> H" "1 \<le> W"
  shows "B * reduced (reduced H 2) 2 * reduced (reduced W 2) 2 = 1 \<longleftrightarrow>
         B = 1 \<and> H \<le> 4 \<and> W \<le> 4"
proof -
  have "1 \<le> reduced (reduced H 2) 2" "1 \<le> reduced (reduced W 2) 2"
    using assms by (simp_all add: reduced_pos)
  from single_value_iff [OF assms(1) this]
  show ?thesis
    using reduced_twice_one [OF assms(2)] reduced_twice_one [OF assms(3)] by simp
qed

lemma Network_eval_sel:
  "net_conv (Network_eval net) = net_conv net"
  "net_stage1 (Network_eval net) = Sequential_train block_train False (net_stage1 net)"
  "net_stage2 (Network_eval net) = Sequential_train block_train False (net_stage2 net)"
  "net_stage3 (Network_eval net) = Sequential_train block_train False (net_stage3 net)"
  "net_bn (Network_eval net) = BatchNorm2d_train False (net_bn net)"
  "net_fc (Network_eval net) = net_fc net"
  by (simp_all add: Network_eval_def Network_train_def)

lemma resnet_forward_shape:
  assumes init: "Network_init shape_engine initialize cfg s = (Inr net, s')"
    and B: "1 \<le> B" and H: "1 \<le> H" and W: "1 \<le> W"
  defines "block \<equiv> (if block_type cfg = ''basic'' then BasicBlock_class else BottleneckBlock_class)"
  defines "nc \<equiv> n_channels_of (initial_channels cfg) block"
  shows "Conv2d_forward shape_engine [''conv''] (net_conv (Network_eval net))
           [B, dataset_n_channels cfg, H, W] = Some [B, nc ! 0, H, W] \<and>
         Sequential_forward (block_forward shape_engine) [''stage1''] (net_stage1 (Network_eval net))
           [B, nc ! 0, H, W] = Some [B, nc ! 0, H, W] \<and>
         Sequential_forward (block_forward shape_engine) [''stage2''] (net_stage2 (Network_eval net))
           [B, nc ! 0, H, W] = Some [B, nc ! 1, reduced H 2, reduced W 2] \<and>
         Sequential_forward (block_forward shape_engine) [''stage3''] (net_stage3 (Network_eval net))
           [B, nc ! 1, reduced H 2, reduced W 2] =
           Some [B, nc ! 2, reduced (reduced H 2) 2, reduced (reduced W 2) 2] \<and>
         forward_conv shape_engine (net_conv (Network_eval net)) (net_stage1 (Network_eval net))
           (net_stage2 (Network_eval net)) (net_stage3 (Network_eval net))
           (net_bn (Network_eval net)) [B, dataset_n_channels cfg, H, W] = Some [B, nc ! 2, 1, 1] \<and>
         fst (Network_forward shape_engine (Network_eval net) [B, dataset_n_channels cfg, H, W] t) =
           Some [B, dataset_n_classes cfg] \<and>
         fst (Network_forward shape_engine net [B, dataset_n_channels cfg, H, W] t) =
           (if B = 1 \<and> H \<le> 4 \<and> W \<le> 4 then None else Some [B, dataset_n_classes cfg])"
proof -
  let ?ic = "initial_channels cfg"
  from resnet_init_shapes [OF init] obtain n p0 p1 p2 where
    n: "1 \<le> n" and ic: "1 \<le> ?ic" and wide: "block = BottleneckBlock_class \<longrightarrow> 4 \<le> ?ic"
    and C: "1 \<le> dataset_n_channels cfg"
    and conv: "net_conv net = \<lparr> in_channels = dataset_n_channels cfg, out_channels = ?ic,
                        kernel_size = 3, stride = 1, padding = 1, bias = False \<rparr>"
    and st1: "make_stage shape_engine (remove_first_relu cfg) (add_last_bn cfg) ?ic ?ic n block 1 p0
        = Inr (net_stage1 net)"
    and st2: "make_stage shape_engine (remove_first_relu cfg) (add_last_bn cfg) ?ic
        (?ic * 2 * expansion block) n block 2 p1 = Inr (net_stage2 net)"
    and st3: "make_stage shape_engine (remove_first_relu cfg) (add_last_bn cfg)
        (?ic * 2 * expansion block) (?ic * 4 * expansion block) n block 2 p2 = Inr (net_stage3 net)"
    and bn: "net_bn net = \<lparr> num_features = ?ic * 4 * expansion block, bn_training = True \<rparr>"
    and fc: "net_fc net = \<lparr> in_features = ?ic * 4 * expansion block,
                      out_features = dataset_n_classes cfg \<rparr>"
    unfolding block_def by blast
  from wide have wide': "block = BottleneckBlock_class \<Longrightarrow> 4 \<le> ?ic" by simp
  have nomode: "False \<Longrightarrow>
      1 < B \<or> 1 < reduced (reduced H 2) 2 \<or> 1 < reduced (reduced W 2) 2" by simp
  note sh1 = resnet_forward_conv_shape(1) [OF st1 st2 st3 ic n wide' B C H W nomode]
  note sh2 = resnet_forward_conv_shape(2) [OF st1 st2 st3 ic n wide' B C H W nomode]
  note sh3 = resnet_forward_conv_shape(3) [OF st1 st2 st3 ic n wide' B C H W nomode]
  note sh4 = resnet_forward_conv_shape(4) [OF st1 st2 st3 ic n wide' B C H W nomode]
  note sh5 = resnet_forward_conv_shape(5) [OF st1 st2 st3 ic n wide' B C H W nomode]
  note built = resnet_forward_conv_built [OF st1 st2 st3 ic n wide' B C H W]
  have nc: "nc ! 0 = ?ic" "nc ! 1 = ?ic * 2 * expansion block" "nc ! 2 = ?ic * 4 * expansion block"
    by (simp_all add: nc_def n_channels_of_def)
  have inference:
    "fst (Network_forward shape_engine (Network_eval net) [B, dataset_n_channels cfg, H, W] t) =
           Some [B, dataset_n_classes cfg]"
    using sh5 B
    by (simp add: Network_forward_def Network_eval_sel conv bn fc flatten_classify_shape Let_def
        del: conv2d_shape.simps batch_norm_shape.simps)
  have training:
    "fst (Network_forward shape_engine net [B, dataset_n_channels cfg, H, W] t) =
           (if B = 1 \<and> H \<le> 4 \<and> W \<le> 4 then None else Some [B, dataset_n_classes cfg])"
    using built B single_value_at_end [OF B H W]
    by (simp add: Network_forward_def conv bn fc flatten_classify_shape Let_def
        del: conv2d_shape.simps batch_norm_shape.simps)
  from sh1 sh2 sh3 sh4 sh5 inference training show ?thesis
    unfolding nc by (simp add: Network_eval_sel conv bn del: conv2d_shape.simps
        batch_norm_shape.simps)
qed

lemma wrn_widths:
  fixes ic w :: int
  assumes "1 \<le> ic" "1 \<le> w"
  shows "1 \<le> ic * w" "ic * w < ic * 2 * w" "ic * 2 * w < ic * 4 * w"
    "1 \<le> ic * 2 * w" "1 \<le> ic * 4 * w"
proof -
  have "ic * 1 \<le> ic * w"
    using assms by (intro mult_left_mono) simp_all
  then have q: "ic \<le> ic * w" by simp
  have two: "ic * 2 * w = 2 * (ic * w)" and four: "ic * 4 * w = 4 * (ic * w)" by simp_all
  show "1 \<le> ic * w" "ic * w < ic * 2 * w" "ic * 2 * w < ic * 4 * w"
    "1 \<le> ic * 2 * w" "1 \<le> ic * 4 * w"
    unfolding two four using q assms(1) by linarith+
qed

lemma quarter_impossible:
  fixes ic w :: int
  assumes "1 \<le> ic"
  shows "ic \<noteq> ic * 4 * w"
proof
  assume eq: "ic = ic * 4 * w"
  have "ic * 1 = ic * (4 * w)" using eq by (simp add: mult.assoc)
  with assms have "1 = 4 * w" by simp
  then show False by presburger
qed

lemma WrnNetwork_init_Inr:
  assumes "WrnNetwork_init eng initialize cfg s = (Inr net, s')"
  shows "(wrn_depth cfg - 4) div 6 * 6 + 4 = wrn_depth cfg \<and>
         WrnNetwork_build eng initialize cfg ((wrn_depth cfg - 4) div 6) s = (Inr net, s')"
  using assms by (auto simp: WrnNetwork_init_def Let_def split: if_splits)

lemma WrnNetwork_build_Inr:
  assumes "WrnNetwork_build eng initialize cfg n s = (Inr net, s')"
  shows "\<exists>stage1 stage2 stage3 fs.
     wrn_make_stage eng (wrn_initial_channels cfg)
       (wrn_initial_channels cfg * wrn_widening_factor cfg) n 1 (wrn_drop_rate cfg) = Inr stage1 \<and>
     wrn_make_stage eng (wrn_initial_channels cfg * wrn_widening_factor cfg)
       (wrn_initial_channels cfg * 2 * wrn_widening_factor cfg) n 2 (wrn_drop_rate cfg) = Inr stage2 \<and>
     wrn_make_stage eng (wrn_initial_channels cfg * 2 * wrn_widening_factor cfg)
       (wrn_initial_channels cfg * 4 * wrn_widening_factor cfg) n 2 (wrn_drop_rate cfg) = Inr stage3 \<and>
     no_grad (compute_feature_size eng
        (wrn_forward_conv eng
           \<lparr> in_channels = wrn_dataset_n_channels cfg, out_channels = wrn_initial_channels cfg,
             kernel_size = 3, stride = 1, padding = 1, bias = False \<rparr>
           stage1 stage2 stage3
           \<lparr> num_features = wrn_initial_channels cfg * 4 * wrn_widening_factor cfg, bn_training = True \<rparr>)
        [1, wrn_dataset_n_channels cfg, wrn_dataset_image_size cfg, wrn_dataset_image_size cfg]) s
       = (Inr fs, s') \<and>
     initialize (wrn_init_mode cfg) = None \<and>
     net = \<lparr> wn_conv = \<lparr> in_channels = wrn_dataset_n_channels cfg,
                         out_channels = wrn_initial_channels cfg,
                         kernel_size = 3, stride = 1, padding = 1, bias = False \<rparr>,
             wn_stage1 = stage1, wn_stage2 = stage2, wn_stage3 = stage3,
             wn_bn = \<lparr> num_features = wrn_initial_channels cfg * 4 * wrn_widening_factor cfg, bn_training = True \<rparr>,
             wn_feature_size = fs,
             wn_fc = \<lparr> in_features = fs, out_features = wrn_dataset_n_classes cfg \<rparr> \<rparr>"
  using assms
  unfolding WrnNetwork_build_def wrn_n_channels_of_def Let_def
  by (auto simp: bind_result_Inr Conv2d_new_def BatchNorm2d_new_def Linear_new_def
      split: sum.splits prod.splits option.splits if_splits)

lemma wrn_probe_conditions:
  assumes st1: "wrn_make_stage eng ic (ic * w) n 1 d = Inr st1"
    and st2: "wrn_make_stage eng (ic * w) (ic * 2 * w) n 2 d = Inr st2"
    and st3: "wrn_make_stage eng (ic * 2 * w) (ic * 4 * w) n 2 d = Inr st3"
    and fwd: "wrn_forward_conv shape_engine
                \<lparr> in_channels = C, out_channels = ic, kernel_size = 3, stride = 1,
                  padding = 1, bias = False \<rparr>
                st1 st2 st3 \<lparr> num_features = ic * 4 * w, bn_training = True \<rparr> [B, C', H, W] = Some y"
  shows "1 \<le> ic \<and> 1 \<le> n \<and> 1 \<le> w \<and> d \<le> 1 \<and> C' = C \<and> 1 \<le> C \<and> 1 \<le> H \<and> 1 \<le> W"
proof -
  from fwd obtain x0 where
    x0: "conv2d_shape \<lparr> in_channels = C, out_channels = ic, kernel_size = 3, stride = 1,
                         padding = 1, bias = False \<rparr> [B, C', H, W] = Some x0"
    and rest: "do {
       x \<leftarrow> Sequential_forward (WrnBlock_forward shape_engine) [''stage1''] st1 x0;
       x \<leftarrow> Sequential_forward (WrnBlock_forward shape_engine) [''stage2''] st2 x;
       x \<leftarrow> Sequential_forward (WrnBlock_forward shape_engine) [''stage3''] st3 x;
       n \<leftarrow> batch_norm_shape \<lparr> num_features = ic * 4 * w, bn_training = True \<rparr> x;
       x \<leftarrow> Some n;
       adaptive_avg_pool2d_shape x 1 } = Some y"
    by (auto simp: wrn_forward_conv_def split: bind_splits)
  from stem_shape [OF x0] have ic: "1 \<le> ic" and C: "C' = C" and C1: "1 \<le> C"
    and H: "1 \<le> H" and W: "1 \<le> W" and x0_eq: "x0 = [B, ic, H, W]" by simp_all
  have n: "1 \<le> n"
  proof (rule ccontr)
    assume "\<not> 1 \<le> n"
    then have "n < 1" by simp
    with st1 st2 st3 have "st1 = []" "st2 = []" "st3 = []"
      by (auto dest: wrn_empty_stage)
    with rest x0_eq have eq: "ic = ic * 4 * w"
      by (auto split: bind_splits if_splits)
    with quarter_impossible [OF ic, of w] show False by simp
  qed
  have pos: "0 < nat n" using n by simp
  note st1_eq = wrn_make_stage_eq [OF st1]
  have first_ok: "\<exists>pth. WrnBlock_forward shape_engine pth (WrnBlock_init ic (ic * w) 1 d) x0 \<noteq> None"
  proof (rule ccontr)
    assume "\<not> ?thesis"
    then have first: "\<And>pth. WrnBlock_forward shape_engine pth (WrnBlock_init ic (ic * w) 1 d) x0 = None"
      by simp
    have "Sequential_forward (WrnBlock_forward shape_engine) [''stage1''] st1 x0 = None"
      unfolding st1_eq
      by (rule stage_forward_fails [where f = "WrnBlock_forward shape_engine", OF pos first])
    with rest show False by simp
  qed
  have w: "1 \<le> w"
  proof (rule ccontr)
    assume "\<not> 1 \<le> w"
    then have "w \<le> 0" by simp
    with ic have "ic * w \<le> 0" by (simp add: mult_nonneg_nonpos)
    then have "ic * w < 1" by simp
    from WrnBlock_no_channels [OF this] first_ok x0_eq show False by simp
  qed
  have d: "d \<le> 1"
  proof (rule ccontr)
    assume "\<not> d \<le> 1"
    then have "1 < d" by simp
    from WrnBlock_bad_rate [OF this] first_ok show False by simp
  qed
  from ic n w d C C1 H W show ?thesis by simp
qed

lemma wrn_forward_conv_shape:
  assumes st1: "wrn_make_stage eng ic (ic * w) n 1 d = Inr st1"
    and st2: "wrn_make_stage eng (ic * w) (ic * 2 * w) n 2 d = Inr st2"
    and st3: "wrn_make_stage eng (ic * 2 * w) (ic * 4 * w) n 2 d = Inr st3"
    and ic: "1 \<le> ic" and n: "1 \<le> n" and w: "1 \<le> w" and d: "d \<le> 1"
    and B: "1 \<le> B" and C: "1 \<le> C" and H: "1 \<le> H" and W: "1 \<le> W"
    and mode: "tr \<Longrightarrow> 1 < B \<or> 1 < reduced (reduced H 2) 2 \<or> 1 < reduced (reduced W 2) 2"
  shows "conv2d_shape \<lparr> in_channels = C, out_channels = ic, kernel_size = 3, stride = 1,
                         padding = 1, bias = False \<rparr> [B, C, H, W] = Some [B, ic, H, W]"
    and "Sequential_forward (WrnBlock_forward shape_engine) [''stage1'']
           (Sequential_train WrnBlock_train tr st1) [B, ic, H, W] =
         Some [B, ic * w, H, W]"
    and "Sequential_forward (WrnBlock_forward shape_engine) [''stage2'']
           (Sequential_train WrnBlock_train tr st2) [B, ic * w, H, W] =
         Some [B, ic * 2 * w, reduced H 2, reduced W 2]"
    and "Sequential_forward (WrnBlock_forward shape_engine) [''stage3'']
           (Sequential_train WrnBlock_train tr st3)
           [B, ic * 2 * w, reduced H 2, reduced W 2] =
         Some [B, ic * 4 * w, reduced (reduced H 2) 2, reduced (reduced W 2) 2]"
    and "wrn_forward_conv shape_engine
           \<lparr> in_channels = C, out_channels = ic, kernel_size = 3, stride = 1,
             padding = 1, bias = False \<rparr>
           (Sequential_train WrnBlock_train tr st1) (Sequential_train WrnBlock_train tr st2)
           (Sequential_train WrnBlock_train tr st3)
           (BatchNorm2d_train tr \<lparr> num_features = ic * 4 * w, bn_training = True \<rparr>)
           [B, C, H, W] =
         Some [B, ic * 4 * w, 1, 1]"
proof -
  note ws = wrn_widths [OF ic w]
  have ne1: "ic * w \<noteq> ic * 2 * w" by (rule less_imp_neq [OF ws(2)])
  have ne2: "ic * 2 * w \<noteq> ic * 4 * w" by (rule less_imp_neq [OF ws(3)])
  have H2: "1 \<le> reduced H 2" and W2: "1 \<le> reduced W 2"
    using H W by (simp_all add: reduced_pos)
  have H4: "1 \<le> reduced (reduced H 2) 2" and W4: "1 \<le> reduced (reduced W 2) 2"
    using H2 W2 by (simp_all add: reduced_pos)
  note mode2 = several_values_twice(1) [OF mode]
  note mode1 = several_values_twice(2) [OF mode]
  have mode1': "tr \<Longrightarrow> 1 < B \<or> 1 < reduced H 1 \<or> 1 < reduced W 1"
    using mode1 by simp
  have last: "\<not> (tr \<and> B * reduced (reduced H 2) 2 * reduced (reduced W 2) 2 = 1)"
    using B H4 W4 mode by (rule several_values)
  show stem: "conv2d_shape \<lparr> in_channels = C, out_channels = ic, kernel_size = 3, stride = 1,
                         padding = 1, bias = False \<rparr> [B, C, H, W] = Some [B, ic, H, W]"
    using conv3_shape [of C ic 1 H W False B] C ic H W by simp
  show s1: "Sequential_forward (WrnBlock_forward shape_engine) [''stage1'']
           (Sequential_train WrnBlock_train tr st1) [B, ic, H, W] =
         Some [B, ic * w, H, W]"
    using wrn_stage_shape [OF st1 n ic ws(1) _ B H W _ d mode1', where path = "[''stage1'']"]
    by simp
  show s2: "Sequential_forward (WrnBlock_forward shape_engine) [''stage2'']
           (Sequential_train WrnBlock_train tr st2) [B, ic * w, H, W] =
         Some [B, ic * 2 * w, reduced H 2, reduced W 2]"
    using wrn_stage_shape [OF st2 n ws(1) ws(4) _ B H W _ d mode2, where path = "[''stage2'']"]
      ne1 by simp
  show s3: "Sequential_forward (WrnBlock_forward shape_engine) [''stage3'']
           (Sequential_train WrnBlock_train tr st3)
           [B, ic * 2 * w, reduced H 2, reduced W 2] =
         Some [B, ic * 4 * w, reduced (reduced H 2) 2, reduced (reduced W 2) 2]"
    using wrn_stage_shape [OF st3 n ws(4) ws(5) _ B H2 W2 _ d mode, where path = "[''stage3'']"]
      ne2 by simp
  show "wrn_forward_conv shape_engine
           \<lparr> in_channels = C, out_channels = ic, kernel_size = 3, stride = 1,
             padding = 1, bias = False \<rparr>
           (Sequential_train WrnBlock_train tr st1) (Sequential_train WrnBlock_train tr st2)
           (Sequential_train WrnBlock_train tr st3)
           (BatchNorm2d_train tr \<lparr> num_features = ic * 4 * w, bn_training = True \<rparr>)
           [B, C, H, W] =
         Some [B, ic * 4 * w, 1, 1]"
    using stem s1 s2 s3 ws(5) H4 W4 last
    by (simp add: wrn_forward_conv_def batch_norm_mode_shape
        del: conv2d_shape.simps batch_norm_shape.simps)
qed

lemma wrn_forward_conv_built:
  assumes st1: "wrn_make_stage eng ic (ic * w) n 1 d = Inr st1"
    and st2: "wrn_make_stage eng (ic * w) (ic * 2 * w) n 2 d = Inr st2"
    and st3: "wrn_make_stage eng (ic * 2 * w) (ic * 4 * w) n 2 d = Inr st3"
    and ic: "1 \<le> ic" and n: "1 \<le> n" and w: "1 \<le> w" and d: "d \<le> 1"
    and B: "1 \<le> B" and C: "1 \<le> C" and H: "1 \<le> H" and W: "1 \<le> W"
  shows "wrn_forward_conv shape_engine
           \<lparr> in_channels = C, out_channels = ic, kernel_size = 3, stride = 1,
             padding = 1, bias = False \<rparr>
           st1 st2 st3 \<lparr> num_features = ic * 4 * w, bn_training = True \<rparr> [B, C, H, W] =
         (if B * reduced (reduced H 2) 2 * reduced (reduced W 2) 2 = 1 then None
          else Some [B, ic * 4 * w, 1, 1])"
proof -
  let ?conv = "\<lparr> in_channels = C, out_channels = ic, kernel_size = 3, stride = 1,
                  padding = 1, bias = False \<rparr>"
  let ?bn = "\<lparr> num_features = ic * 4 * w, bn_training = True \<rparr>"
  let ?H4 = "reduced (reduced H 2) 2" and ?W4 = "reduced (reduced W 2) 2"
  have H4: "1 \<le> ?H4" and W4: "1 \<le> ?W4"
    using H W by (simp_all add: reduced_pos)
  have tr: "Sequential_train WrnBlock_train True st1 = st1"
    "Sequential_train WrnBlock_train True st2 = st2"
    "Sequential_train WrnBlock_train True st3 = st3"
    "BatchNorm2d_train True ?bn = ?bn"
    using wrn_stage_train_True [OF st1] wrn_stage_train_True [OF st2]
      wrn_stage_train_True [OF st3]
    by (simp_all add: BatchNorm2d_train_def)
  show ?thesis
  proof (cases "B * ?H4 * ?W4 = 1")
    case False
    then have mode: "True \<Longrightarrow> 1 < B \<or> 1 < ?H4 \<or> 1 < ?W4"
      using single_value_iff [OF B H4 W4] B H4 W4 by auto
    from wrn_forward_conv_shape(5) [OF st1 st2 st3 ic n w d B C H W mode, where tr = True]
      False
    show ?thesis unfolding tr by simp
  next
    case True
    have nomode: "False \<Longrightarrow> 1 < B \<or> 1 < ?H4 \<or> 1 < ?W4" by simp
    note e1 = wrn_forward_conv_shape(1) [OF st1 st2 st3 ic n w d B C H W nomode]
    note e2 = wrn_forward_conv_shape(2) [OF st1 st2 st3 ic n w d B C H W nomode]
    note e3 = wrn_forward_conv_shape(3) [OF st1 st2 st3 ic n w d B C H W nomode]
    note e4 = wrn_forward_conv_shape(4) [OF st1 st2 st3 ic n w d B C H W nomode]
    have "wrn_forward_conv shape_engine ?conv st1 st2 st3 ?bn [B, C, H, W] = None"
    proof (rule ccontr)
      assume "wrn_forward_conv shape_engine ?conv st1 st2 st3 ?bn [B, C, H, W] \<noteq> None"
      then obtain y where
        "wrn_forward_conv shape_engine ?conv st1 st2 st3 ?bn [B, C, H, W] = Some y"
        by auto
      then obtain x0 x1 x2 x3 z where
        x0: "conv2d_shape ?conv [B, C, H, W] = Some x0"
        and x1: "Sequential_forward (WrnBlock_forward shape_engine) [''stage1''] st1 x0 = Some x1"
        and x2: "Sequential_forward (WrnBlock_forward shape_engine) [''stage2''] st2 x1 = Some x2"
        and x3: "Sequential_forward (WrnBlock_forward shape_engine) [''stage3''] st3 x2 = Some x3"
        and z: "batch_norm_shape ?bn x3 = Some z"
        unfolding wrn_forward_conv_def by (auto split: bind_splits simp del: conv2d_shape.simps
            batch_norm_shape.simps)
      from x0 e1 have x0_eq: "x0 = [B, ic, H, W]" by simp
      from Sequential_eval [of "WrnBlock_forward shape_engine" WrnBlock_train,
          OF WrnBlock_eval x1] e2 x0_eq
      have x1_eq: "x1 = [B, ic * w, H, W]" by simp
      from Sequential_eval [of "WrnBlock_forward shape_engine" WrnBlock_train,
          OF WrnBlock_eval x2] e3 x1_eq
      have x2_eq: "x2 = [B, ic * 2 * w, reduced H 2, reduced W 2]" by simp
      from Sequential_eval [of "WrnBlock_forward shape_engine" WrnBlock_train,
          OF WrnBlock_eval x3] e4 x2_eq
      have x3_eq: "x3 = [B, ic * 4 * w, ?H4, ?W4]" by simp
      from z True show False unfolding x3_eq by simp
    qed
    with True show ?thesis by simp
  qed
qed

lemma wrn_init_shapes:
  assumes init: "WrnNetwork_init shape_engine initialize cfg s = (Inr net, s')"
  defines "ic \<equiv> wrn_initial_channels cfg"
  defines "w \<equiv> wrn_widening_factor cfg"
  defines "d \<equiv> wrn_drop_rate cfg"
  shows "\<exists>n.
      n = (wrn_depth cfg - 4) div 6 \<and> n * 6 + 4 = wrn_depth cfg \<and> 1 \<le> n \<and>
      1 \<le> ic \<and> 1 \<le> w \<and> d \<le> 1 \<and> 1 \<le> wrn_dataset_image_size cfg \<and>
      1 \<le> wrn_dataset_n_channels cfg \<and>
      wn_conv net = \<lparr> in_channels = wrn_dataset_n_channels cfg, out_channels = ic,
                       kernel_size = 3, stride = 1, padding = 1, bias = False \<rparr> \<and>
      wrn_make_stage shape_engine ic (ic * w) n 1 d = Inr (wn_stage1 net) \<and>
      wrn_make_stage shape_engine (ic * w) (ic * 2 * w) n 2 d = Inr (wn_stage2 net) \<and>
      wrn_make_stage shape_engine (ic * 2 * w) (ic * 4 * w) n 2 d = Inr (wn_stage3 net) \<and>
      wn_bn net = \<lparr> num_features = ic * 4 * w, bn_training = True \<rparr> \<and>
      wn_feature_size net = ic * 4 * w \<and>
      wn_fc net = \<lparr> in_features = ic * 4 * w, out_features = wrn_dataset_n_classes cfg \<rparr>"
proof -
  let ?n = "(wrn_depth cfg - 4) div 6"
  let ?conv = "\<lparr> in_channels = wrn_dataset_n_channels cfg, out_channels = ic,
                  kernel_size = 3, stride = 1, padding = 1, bias = False \<rparr>"
  let ?bn = "\<lparr> num_features = ic * 4 * w, bn_training = True \<rparr>"
  let ?S = "wrn_dataset_image_size cfg"
  from WrnNetwork_init_Inr [OF init] have
    rel: "?n * 6 + 4 = wrn_depth cfg"
    and build: "WrnNetwork_build shape_engine initialize cfg ?n s = (Inr net, s')"
    by simp_all
  from WrnNetwork_build_Inr [OF build] obtain st1 st2 st3 fs where
    st1: "wrn_make_stage shape_engine ic (ic * w) ?n 1 d = Inr st1"
    and st2: "wrn_make_stage shape_engine (ic * w) (ic * 2 * w) ?n 2 d = Inr st2"
    and st3: "wrn_make_stage shape_engine (ic * 2 * w) (ic * 4 * w) ?n 2 d = Inr st3"
    and probe: "no_grad (compute_feature_size shape_engine
                   (wrn_forward_conv shape_engine ?conv st1 st2 st3 ?bn)
                   [1, wrn_dataset_n_channels cfg, ?S, ?S]) s = (Inr fs, s')"
    and net: "net = \<lparr> wn_conv = ?conv,
             wn_stage1 = st1, wn_stage2 = st2, wn_stage3 = st3,
             wn_bn = ?bn,
             wn_feature_size = fs,
             wn_fc = \<lparr> in_features = fs, out_features = wrn_dataset_n_classes cfg \<rparr> \<rparr>"
    unfolding ic_def w_def d_def by blast
  from probe_Inr [OF probe] obtain dummy y v ds where
    dummy: "zeros_shape [1, wrn_dataset_n_channels cfg, ?S, ?S] float32 = Some dummy"
    and y: "wrn_forward_conv shape_engine ?conv st1 st2 st3 ?bn dummy = Some y"
    and v: "view_shape y [- 1] = Some v" and fs: "v = fs # ds"
    by auto
  from dummy have dummy_eq: "dummy = [1, wrn_dataset_n_channels cfg, ?S, ?S]"
    by (simp add: zeros_shape_def split: if_splits)
  note y' = y [unfolded dummy_eq]
  from wrn_probe_conditions [OF st1 st2 st3 y']
  have ic: "1 \<le> ic" and n: "1 \<le> ?n" and w: "1 \<le> w" and d: "d \<le> 1"
    and S: "1 \<le> ?S" and C: "1 \<le> wrn_dataset_n_channels cfg" by simp_all
  have one: "(1::int) \<le> 1" by simp
  from wrn_forward_conv_built [OF st1 st2 st3 ic n w d one C S S] y'
  have y_eq: "y = [1, ic * 4 * w, 1, 1]" by (simp split: if_splits)
  have c3: "1 \<le> ic * 4 * w"
    by (rule wrn_widths(5) [OF ic w])
  from v fs y_eq c3 have fs_eq: "fs = ic * 4 * w"
    by (simp add: view_flat)
  have sel: "wn_conv net = ?conv" "wn_stage1 net = st1" "wn_stage2 net = st2"
    "wn_stage3 net = st3" "wn_bn net = ?bn" "wn_feature_size net = ic * 4 * w"
    "wn_fc net = \<lparr> in_features = ic * 4 * w, out_features = wrn_dataset_n_classes cfg \<rparr>"
    by (simp_all add: net fs_eq)
  show ?thesis
    apply (rule exI [of _ ?n])
    apply (intro conjI)
                apply (rule refl)
               apply (rule rel)
              apply (rule n)
             apply (rule ic)
            apply (rule w)
           apply (rule d)
           apply (rule S)
          apply (rule C)
         apply (rule sel(1))
        apply (simp only: sel st1)
       apply (simp only: sel st2)
      apply (simp only: sel st3)
     apply (rule sel(5))
    apply (rule sel(6))
    apply (rule sel(7))
    done
qed

lemma WrnNetwork_eval_sel:
  "wn_conv (WrnNetwork_eval net) = wn_conv net"
  "wn_stage1 (WrnNetwork_eval net) = Sequential_train WrnBlock_train False (wn_stage1 net)"
  "wn_stage2 (WrnNetwork_eval net) = Sequential_train WrnBlock_train False (wn_stage2 net)"
  "wn_stage3 (WrnNetwork_eval net) = Sequential_train WrnBlock_train False (wn_stage3 net)"
  "wn_bn (WrnNetwork_eval net) = BatchNorm2d_train False (wn_bn net)"
  "wn_fc (WrnNetwork_eval net) = wn_fc net"
  by (simp_all add: WrnNetwork_eval_def WrnNetwork_train_def)

lemma wrn_forward_shape:
  assumes init: "WrnNetwork_init shape_engine initialize cfg s = (Inr net, s')"
    and B: "1 \<le> B" and H: "1 \<le> H" and W: "1 \<le> W"
  defines "nc \<equiv> wrn_n_channels_of (wrn_initial_channels cfg) (wrn_widening_factor cfg)"
  shows "Conv2d_forward shape_engine [''conv''] (wn_conv (WrnNetwork_eval net))
           [B, wrn_dataset_n_channels cfg, H, W] = Some [B, nc ! 0, H, W] \<and>
         Sequential_forward (WrnBlock_forward shape_engine) [''stage1'']
           (wn_stage1 (WrnNetwork_eval net)) [B, nc ! 0, H, W] = Some [B, nc ! 1, H, W] \<and>
         Sequential_forward (WrnBlock_forward shape_engine) [''stage2'']
           (wn_stage2 (WrnNetwork_eval net)) [B, nc ! 1, H, W] =
           Some [B, nc ! 2, reduced H 2, reduced W 2] \<and>
         Sequential_forward (WrnBlock_forward shape_engine) [''stage3'']
           (wn_stage3 (WrnNetwork_eval net)) [B, nc ! 2, reduced H 2, reduced W 2] =
           Some [B, nc ! 3, reduced (reduced H 2) 2, reduced (reduced W 2) 2] \<and>
         wrn_forward_conv shape_engine (wn_conv (WrnNetwork_eval net))
           (wn_stage1 (WrnNetwork_eval net)) (wn_stage2 (WrnNetwork_eval net))
           (wn_stage3 (WrnNetwork_eval net)) (wn_bn (WrnNetwork_eval net))
           [B, wrn_dataset_n_channels cfg, H, W] = Some [B, nc ! 3, 1, 1] \<and>
         fst (WrnNetwork_forward shape_engine (WrnNetwork_eval net)
                [B, wrn_dataset_n_channels cfg, H, W] t) =
           Some [B, wrn_dataset_n_classes cfg] \<and>
         fst (WrnNetwork_forward shape_engine net [B, wrn_dataset_n_channels cfg, H, W] t) =
           (if B = 1 \<and> H \<le> 4 \<and> W \<le> 4 then None else Some [B, wrn_dataset_n_classes cfg])"
proof -
  let ?ic = "wrn_initial_channels cfg"
  let ?w = "wrn_widening_factor cfg"
  let ?d = "wrn_drop_rate cfg"
  from wrn_init_shapes [OF init] obtain n where
    n: "1 \<le> n" and ic: "1 \<le> ?ic" and w: "1 \<le> ?w" and d: "?d \<le> 1"
    and C: "1 \<le> wrn_dataset_n_channels cfg"
    and conv: "wn_conv net = \<lparr> in_channels = wrn_dataset_n_channels cfg, out_channels = ?ic,
                        kernel_size = 3, stride = 1, padding = 1, bias = False \<rparr>"
    and st1: "wrn_make_stage shape_engine ?ic (?ic * ?w) n 1 ?d = Inr (wn_stage1 net)"
    and st2: "wrn_make_stage shape_engine (?ic * ?w) (?ic * 2 * ?w) n 2 ?d = Inr (wn_stage2 net)"
    and st3: "wrn_make_stage shape_engine (?ic * 2 * ?w) (?ic * 4 * ?w) n 2 ?d
                = Inr (wn_stage3 net)"
    and bn: "wn_bn net = \<lparr> num_features = ?ic * 4 * ?w, bn_training = True \<rparr>"
    and fc: "wn_fc net = \<lparr> in_features = ?ic * 4 * ?w,
                      out_features = wrn_dataset_n_classes cfg \<rparr>"
    by blast
  have nomode: "False \<Longrightarrow>
      1 < B \<or> 1 < reduced (reduced H 2) 2 \<or> 1 < reduced (reduced W 2) 2" by simp
  note sh1 = wrn_forward_conv_shape(1) [OF st1 st2 st3 ic n w d B C H W nomode]
  note sh2 = wrn_forward_conv_shape(2) [OF st1 st2 st3 ic n w d B C H W nomode]
  note sh3 = wrn_forward_conv_shape(3) [OF st1 st2 st3 ic n w d B C H W nomode]
  note sh4 = wrn_forward_conv_shape(4) [OF st1 st2 st3 ic n w d B C H W nomode]
  note sh5 = wrn_forward_conv_shape(5) [OF st1 st2 st3 ic n w d B C H W nomode]
  note built = wrn_forward_conv_built [OF st1 st2 st3 ic n w d B C H W]
  have nc: "nc ! 0 = ?ic" "nc ! 1 = ?ic * ?w" "nc ! 2 = ?ic * 2 * ?w" "nc ! 3 = ?ic * 4 * ?w"
    by (simp_all add: nc_def wrn_n_channels_of_def)
  have inference:
    "fst (WrnNetwork_forward shape_engine (WrnNetwork_eval net)
            [B, wrn_dataset_n_channels cfg, H, W] t) = Some [B, wrn_dataset_n_classes cfg]"
    using sh5 B
    by (simp add: WrnNetwork_forward_def WrnNetwork_eval_sel conv bn fc flatten_classify_shape
        Let_def del: conv2d_shape.simps batch_norm_shape.simps)
  have training:
    "fst (WrnNetwork_forward shape_engine net [B, wrn_dataset_n_channels cfg, H, W] t) =
           (if B = 1 \<and> H \<le> 4 \<and> W \<le> 4 then None else Some [B, wrn_dataset_n_classes cfg])"
    using built B single_value_at_end [OF B H W]
    by (simp add: WrnNetwork_forward_def conv bn fc flatten_classify_shape Let_def
        del: conv2d_shape.simps batch_norm_shape.simps)
  from sh1 sh2 sh3 sh4 sh5 inference training show ?thesis
    unfolding nc by (simp add: WrnNetwork_eval_sel conv bn del: conv2d_shape.simps
        batch_norm_shape.simps)
qed

section \<open>Depth, channel widths, probe and forward pass\<close>

lemma cifar_basic_20_constructs:
  "\<exists>net s'. Network_init shape_engine (\<lambda>_. None) (cifar_config ''basic'' 20) fresh_state =
             (Inr net, s')"
proof -
  have "case Network_init shape_engine (\<lambda>_. None) (cifar_config ''basic'' 20) fresh_state of
          (Inr net, s') \<Rightarrow> True | (Inl e, s') \<Rightarrow> False"
    by code_simp
  then show ?thesis
    by (simp split: prod.splits sum.splits)
qed

lemma cifar_wrn_10_constructs:
  "\<exists>net s'. WrnNetwork_init shape_engine (\<lambda>_. None) (cifar_wrn_config 10) fresh_state =
             (Inr net, s')"
proof -
  have "case WrnNetwork_init shape_engine (\<lambda>_. None) (cifar_wrn_config 10) fresh_state of
          (Inr net, s') \<Rightarrow> True | (Inl e, s') \<Rightarrow> False"
    by code_simp
  then show ?thesis
    by (simp split: prod.splits sum.splits)
qed

lemma cifar_basic_2_fails:
  "fst (Network_init shape_engine (\<lambda>_. None) (cifar_config ''basic'' 2) fresh_state) =
   Inl EngineError"
  by code_simp

lemma cifar_wrn_4_fails:
  "fst (WrnNetwork_init shape_engine (\<lambda>_. None) (cifar_wrn_config 4) fresh_state) =
   Inl EngineError"
  by code_simp

text \<open>
  C1, as stated, fails in the direction from the relation to success: depth 2 with the
  basic block satisfies the relation (0 blocks per stage, \<open>0 * 6 + 2 = 2\<close>), the
  assertion passes, the stages are empty, and the probe fails when the final
  normalisation over 64 channels meets the 16 channels of the stem.
\<close>

theorem depth_relation_not_sufficient:
  "(2 - 2) div 6 * 6 + 2 = (2::int) \<and>
   block_type (cifar_config ''basic'' 2) = ''basic'' \<and> depth (cifar_config ''basic'' 2) = 2 \<and>
   fst (Network_init shape_engine (\<lambda>_. None) (cifar_config ''basic'' 2) fresh_state) =
     Inl EngineError"
  using cifar_basic_2_fails by (simp add: cifar_config_def)

lemma stage_length:
  "make_stage eng r a i out n block s p = Inr stage \<Longrightarrow> length stage = nat n"
  by (drule make_stage_eq) simp

lemma wrn_stage_length:
  "wrn_make_stage eng i out n s d = Inr stage \<Longrightarrow> length stage = nat n"
  by (drule wrn_make_stage_eq) simp

lemma exact_division:
  fixes d c k :: int
  shows "(d - c) div k * k + c = d \<longleftrightarrow> k dvd d - c"
proof
  assume "(d - c) div k * k + c = d"
  then have "d - c = (d - c) div k * k" by simp
  then show "k dvd d - c" by (metis dvd_triv_right)
next
  assume "k dvd d - c"
  then show "(d - c) div k * k + c = d" by simp
qed

lemma resnet_init_depth:
  assumes init: "Network_init eng initialize cfg s = (Inr net, s')"
  shows "\<exists>k. (block_type cfg = ''basic'' \<and> k = 6 \<or> block_type cfg = ''bottleneck'' \<and> k = 9) \<and>
           k dvd depth cfg - 2 \<and>
           length (net_stage1 net) = nat ((depth cfg - 2) div k) \<and>
           length (net_stage2 net) = nat ((depth cfg - 2) div k) \<and>
           length (net_stage3 net) = nat ((depth cfg - 2) div k)"
proof -
  from Network_init_Inr [OF init] obtain blk k where
    kind: "block_type cfg = ''basic'' \<and> blk = BasicBlock_class \<and> k = 6 \<or>
           block_type cfg = ''bottleneck'' \<and> blk = BottleneckBlock_class \<and> k = 9"
    and rel: "(depth cfg - 2) div k * k + 2 = depth cfg"
    and build: "Network_build eng initialize cfg blk ((depth cfg - 2) div k) s = (Inr net, s')"
    by blast
  from kind have kind': "block_type cfg = ''basic'' \<and> k = 6 \<or>
      block_type cfg = ''bottleneck'' \<and> k = 9" by blast
  from rel have dvd: "k dvd depth cfg - 2" by (simp add: exact_division)
  from Network_build_Inr [OF build] obtain p0 p1 p2 st1 st2 st3 fs where
    st: "make_stage eng (remove_first_relu cfg) (add_last_bn cfg) (initial_channels cfg)
       (initial_channels cfg) ((depth cfg - 2) div k) blk 1 p0 = Inr st1"
     "make_stage eng (remove_first_relu cfg) (add_last_bn cfg) (initial_channels cfg)
       (initial_channels cfg * 2 * expansion blk) ((depth cfg - 2) div k) blk 2 p1 = Inr st2"
     "make_stage eng (remove_first_relu cfg) (add_last_bn cfg) (initial_channels cfg * 2 * expansion blk)
       (initial_channels cfg * 4 * expansion blk) ((depth cfg - 2) div k) blk 2 p2 = Inr st3"
    and sel: "net_stage1 net = st1" "net_stage2 net = st2" "net_stage3 net = st3"
    by force
  from st have "length st1 = nat ((depth cfg - 2) div k)" "length st2 = nat ((depth cfg - 2) div k)"
    "length st3 = nat ((depth cfg - 2) div k)"
    by (simp_all add: stage_length)
  with kind' dvd sel show ?thesis by blast
qed

lemma wrn_init_depth:
  assumes init: "WrnNetwork_init eng initialize cfg s = (Inr net, s')"
  shows "6 dvd wrn_depth cfg - 4 \<and>
         length (wn_stage1 net) = nat ((wrn_depth cfg - 4) div 6) \<and>
         length (wn_stage2 net) = nat ((wrn_depth cfg - 4) div 6) \<and>
         length (wn_stage3 net) = nat ((wrn_depth cfg - 4) div 6)"
proof -
  let ?n = "(wrn_depth cfg - 4) div 6"
  from WrnNetwork_init_Inr [OF init] have
    rel: "?n * 6 + 4 = wrn_depth cfg"
    and build: "WrnNetwork_build eng initialize cfg ?n s = (Inr net, s')"
    by simp_all
  from rel have dvd: "6 dvd wrn_depth cfg - 4" by (simp add: exact_division)
  from WrnNetwork_build_Inr [OF build] obtain st1 st2 st3 where
    st: "wrn_make_stage eng (wrn_initial_channels cfg)
       (wrn_initial_channels cfg * wrn_widening_factor cfg) ?n 1 (wrn_drop_rate cfg) = Inr st1"
     "wrn_make_stage eng (wrn_initial_channels cfg * wrn_widening_factor cfg)
       (wrn_initial_channels cfg * 2 * wrn_widening_factor cfg) ?n 2 (wrn_drop_rate cfg) = Inr st2"
     "wrn_make_stage eng (wrn_initial_channels cfg * 2 * wrn_widening_factor cfg)
       (wrn_initial_channels cfg * 4 * wrn_widening_factor cfg) ?n 2 (wrn_drop_rate cfg) = Inr st3"
    and sel: "wn_stage1 net = st1" "wn_stage2 net = st2" "wn_stage3 net = st3"
    by force
  from st have "length st1 = nat ?n" "length st2 = nat ?n" "length st3 = nat ?n"
    by (simp_all add: wrn_stage_length)
  with dvd sel show ?thesis by simp
qed

text \<open>
  C1, amended: a depth that violates the variant's relation makes construction fail with
  an assertion error before anything is built (basic: \<open>(depth - 2) div 6 * 6 + 2\<close>,
  bottleneck: \<open>(depth - 2) div 9 * 9 + 2\<close>, wrn: \<open>(depth - 4) div 6 * 6 + 4\<close> differs from
  the depth). So a constructed network has a depth with \<open>k\<close> dividing \<open>depth - c\<close>, and
  each of its three stages has \<open>(depth - c) div k\<close> blocks. The relation is necessary for
  success, not sufficient.
\<close>

theorem depth_must_satisfy_divisibility:
  "(block_type cfg = ''basic'' \<and> (depth cfg - 2) div 6 * 6 + 2 \<noteq> depth cfg \<longrightarrow>
      Network_init eng initialize cfg s = (Inl AssertionError, s)) \<and>
   (block_type cfg = ''bottleneck'' \<and> (depth cfg - 2) div 9 * 9 + 2 \<noteq> depth cfg \<longrightarrow>
      Network_init eng initialize cfg s = (Inl AssertionError, s)) \<and>
   ((wrn_depth wcfg - 4) div 6 * 6 + 4 \<noteq> wrn_depth wcfg \<longrightarrow>
      WrnNetwork_init eng initialize wcfg s = (Inl AssertionError, s)) \<and>
   (Network_init eng initialize cfg s = (Inr net, s') \<longrightarrow>
      (\<exists>k. (block_type cfg = ''basic'' \<and> k = 6 \<or> block_type cfg = ''bottleneck'' \<and> k = 9) \<and>
           k dvd depth cfg - 2 \<and>
           length (net_stage1 net) = nat ((depth cfg - 2) div k) \<and>
           length (net_stage2 net) = nat ((depth cfg - 2) div k) \<and>
           length (net_stage3 net) = nat ((depth cfg - 2) div k))) \<and>
   (WrnNetwork_init eng initialize wcfg s = (Inr wnet, s'') \<longrightarrow>
      6 dvd wrn_depth wcfg - 4 \<and>
      length (wn_stage1 wnet) = nat ((wrn_depth wcfg - 4) div 6) \<and>
      length (wn_stage2 wnet) = nat ((wrn_depth wcfg - 4) div 6) \<and>
      length (wn_stage3 wnet) = nat ((wrn_depth wcfg - 4) div 6))"
proof (intro conjI impI)
  assume "block_type cfg = ''basic'' \<and> (depth cfg - 2) div 6 * 6 + 2 \<noteq> depth cfg"
  then show "Network_init eng initialize cfg s = (Inl AssertionError, s)"
    by (simp add: Network_init_def Let_def)
next
  assume "block_type cfg = ''bottleneck'' \<and> (depth cfg - 2) div 9 * 9 + 2 \<noteq> depth cfg"
  then show "Network_init eng initialize cfg s = (Inl AssertionError, s)"
    by (simp add: Network_init_def Let_def)
next
  assume "(wrn_depth wcfg - 4) div 6 * 6 + 4 \<noteq> wrn_depth wcfg"
  then show "WrnNetwork_init eng initialize wcfg s = (Inl AssertionError, s)"
    by (simp add: WrnNetwork_init_def Let_def)
next
  assume "Network_init eng initialize cfg s = (Inr net, s')"
  then show "\<exists>k. (block_type cfg = ''basic'' \<and> k = 6 \<or> block_type cfg = ''bottleneck'' \<and> k = 9) \<and>
           k dvd depth cfg - 2 \<and>
           length (net_stage1 net) = nat ((depth cfg - 2) div k) \<and>
           length (net_stage2 net) = nat ((depth cfg - 2) div k) \<and>
           length (net_stage3 net) = nat ((depth cfg - 2) div k)"
    by (rule resnet_init_depth)
next
  assume init: "WrnNetwork_init eng initialize wcfg s = (Inr wnet, s'')"
  from wrn_init_depth [OF init]
  show "6 dvd wrn_depth wcfg - 4"
    "length (wn_stage1 wnet) = nat ((wrn_depth wcfg - 4) div 6)"
    "length (wn_stage2 wnet) = nat ((wrn_depth wcfg - 4) div 6)"
    "length (wn_stage3 wnet) = nat ((wrn_depth wcfg - 4) div 6)"
    by simp_all
qed

text \<open>
  Depth 19 with the basic block fails with the assertion error; depth 20 constructs and
  gives 3 blocks in every stage.
\<close>

theorem depth_must_satisfy_divisibility_witness:
  "Network_init shape_engine (\<lambda>_. None) (cifar_config ''basic'' 19) fresh_state =
     (Inl AssertionError, fresh_state) \<and>
   (\<exists>net s'. Network_init shape_engine (\<lambda>_. None) (cifar_config ''basic'' 20) fresh_state =
        (Inr net, s') \<and>
      length (net_stage1 net) = 3 \<and> length (net_stage2 net) = 3 \<and> length (net_stage3 net) = 3)"
proof -
  let ?c19 = "cifar_config ''basic'' 19" and ?c20 = "cifar_config ''basic'' 20"
  have bad: "block_type ?c19 = ''basic'' \<and> (depth ?c19 - 2) div 6 * 6 + 2 \<noteq> depth ?c19"
    by (simp add: cifar_config_def)
  from cifar_basic_20_constructs obtain net s' where
    init: "Network_init shape_engine (\<lambda>_. None) ?c20 fresh_state = (Inr net, s')" by blast
  note thm19 = depth_must_satisfy_divisibility
    [where cfg = ?c19 and eng = shape_engine and initialize = "\<lambda>_. None" and s = fresh_state]
  note thm20 = depth_must_satisfy_divisibility
    [where cfg = ?c20 and eng = shape_engine and initialize = "\<lambda>_. None" and s = fresh_state
       and net = net and s' = s']
  from thm19 bad have fails: "Network_init shape_engine (\<lambda>_. None) ?c19 fresh_state =
     (Inl AssertionError, fresh_state)" by blast
  from thm20 init obtain k where
    k: "block_type ?c20 = ''basic'' \<and> k = 6 \<or> block_type ?c20 = ''bottleneck'' \<and> k = 9"
    and len: "length (net_stage1 net) = nat ((depth ?c20 - 2) div k)"
      "length (net_stage2 net) = nat ((depth ?c20 - 2) div k)"
      "length (net_stage3 net) = nat ((depth ?c20 - 2) div k)"
    by blast
  from k have "k = 6" by (simp add: cifar_config_def)
  with len have "length (net_stage1 net) = 3" "length (net_stage2 net) = 3"
    "length (net_stage3 net) = 3"
    by (simp_all add: cifar_config_def)
  with fails init show ?thesis by blast
qed








lemma forward_in_order:
  "fst (Network_forward eng net x s) =
     do {
       x \<leftarrow> Conv2d_forward eng [''conv''] (net_conv net) x;
       x \<leftarrow> Sequential_forward (block_forward eng) [''stage1''] (net_stage1 net) x;
       x \<leftarrow> Sequential_forward (block_forward eng) [''stage2''] (net_stage2 net) x;
       x \<leftarrow> Sequential_forward (block_forward eng) [''stage3''] (net_stage3 net) x;
       n \<leftarrow> BatchNorm2d_forward eng [''bn''] (net_bn net) x;
       a \<leftarrow> F_relu eng n;
       p \<leftarrow> F_adaptive_avg_pool2d eng a 1;
       flatten_classify eng (net_fc net) p
     }"
  by (simp add: Network_forward_def forward_conv_def Let_def)

lemma wrn_forward_in_order:
  "fst (WrnNetwork_forward eng net x s) =
     do {
       x \<leftarrow> Conv2d_forward eng [''conv''] (wn_conv net) x;
       x \<leftarrow> Sequential_forward (WrnBlock_forward eng) [''stage1''] (wn_stage1 net) x;
       x \<leftarrow> Sequential_forward (WrnBlock_forward eng) [''stage2''] (wn_stage2 net) x;
       x \<leftarrow> Sequential_forward (WrnBlock_forward eng) [''stage3''] (wn_stage3 net) x;
       n \<leftarrow> BatchNorm2d_forward eng [''bn''] (wn_bn net) x;
       a \<leftarrow> F_relu eng n;
       p \<leftarrow> F_adaptive_avg_pool2d eng a 1;
       flatten_classify eng (wn_fc net) p
     }"
  by (simp add: WrnNetwork_forward_def wrn_forward_conv_def Let_def)

text \<open>
  C7, as stated, fails. The network is in training mode when it is built. A batch of one
  image of 4x4 pixels has a spatial size that two reductions of stride 2 leave at 1x1,
  and the forward pass of the example networks built for 32x32 images does not return
  on it: the normalisation raises on the single value per channel.
\<close>

theorem forward_raises_on_single_value:
  "(1::int) \<le> reduced (reduced 4 2) 2 \<and>
   (\<exists>net s'. Network_init shape_engine (\<lambda>_. None) (cifar_config ''basic'' 20) fresh_state =
        (Inr net, s') \<and>
      fst (Network_forward shape_engine net [1, 3, 4, 4] s') = None) \<and>
   (\<exists>net s'. WrnNetwork_init shape_engine (\<lambda>_. None) (cifar_wrn_config 10) fresh_state =
        (Inr net, s') \<and>
      fst (WrnNetwork_forward shape_engine net [1, 3, 4, 4] s') = None)"
proof -
  let ?c = "cifar_config ''basic'' 20" and ?w = "cifar_wrn_config 10"
  from cifar_basic_20_constructs obtain net s' where
    init: "Network_init shape_engine (\<lambda>_. None) ?c fresh_state = (Inr net, s')" by blast
  from cifar_wrn_10_constructs obtain wnet t' where
    winit: "WrnNetwork_init shape_engine (\<lambda>_. None) ?w fresh_state = (Inr wnet, t')" by blast
  have c: "dataset_n_channels ?c = 3" "wrn_dataset_n_channels ?w = 3"
    by (simp_all add: cifar_config_def cifar_wrn_config_def)
  from resnet_forward_shape [OF init, of 1 4 4 s']
  have a: "fst (Network_forward shape_engine net [1, 3, 4, 4] s') = None"
    unfolding c by simp
  from wrn_forward_shape [OF winit, of 1 4 4 t']
  have b: "fst (WrnNetwork_forward shape_engine wnet [1, 3, 4, 4] t') = None"
    unfolding c by simp
  have "(1::int) \<le> reduced (reduced 4 2) 2" by (simp add: reduced_def)
  with a b init winit show ?thesis by blast
qed

text \<open>
  C7, amended. The forward pass is, in this order, the stem convolution, stage 1,
  stage 2, stage 3, normalisation, activation, global average pooling to 1x1,
  flattening and the linear classifier (for every engine). Under the shape contract,
  for a constructed network and every input of the configured channel count with batch
  and spatial sizes of at least 1:
  \<^item> in inference mode (after \<open>eval()\<close>) stage 1 keeps the spatial size, stages 2 and 3
    each reduce it with stride 2, and the result has shape \<open>(B, n_classes)\<close>, whatever
    the spatial size of the input;
  \<^item> in training mode, which is the mode of the network as it was built, the result has
    shape \<open>(B, n_classes)\<close> too, unless the batch is a single image of at most 4x4
    pixels: then the last normalisation sees one value per channel and the forward pass
    raises.
\<close>

theorem forward_returns_batch_by_classes:
  "fst (Network_forward eng net x s) =
     do {
       x \<leftarrow> Conv2d_forward eng [''conv''] (net_conv net) x;
       x \<leftarrow> Sequential_forward (block_forward eng) [''stage1''] (net_stage1 net) x;
       x \<leftarrow> Sequential_forward (block_forward eng) [''stage2''] (net_stage2 net) x;
       x \<leftarrow> Sequential_forward (block_forward eng) [''stage3''] (net_stage3 net) x;
       n \<leftarrow> BatchNorm2d_forward eng [''bn''] (net_bn net) x;
       a \<leftarrow> F_relu eng n;
       p \<leftarrow> F_adaptive_avg_pool2d eng a 1;
       flatten_classify eng (net_fc net) p
     } \<and>
   fst (WrnNetwork_forward eng wnet x s) =
     do {
       x \<leftarrow> Conv2d_forward eng [''conv''] (wn_conv wnet) x;
       x \<leftarrow> Sequential_forward (WrnBlock_forward eng) [''stage1''] (wn_stage1 wnet) x;
       x \<leftarrow> Sequential_forward (WrnBlock_forward eng) [''stage2''] (wn_stage2 wnet) x;
       x \<leftarrow> Sequential_forward (WrnBlock_forward eng) [''stage3''] (wn_stage3 wnet) x;
       n \<leftarrow> BatchNorm2d_forward eng [''bn''] (wn_bn wnet) x;
       a \<leftarrow> F_relu eng n;
       p \<leftarrow> F_adaptive_avg_pool2d eng a 1;
       flatten_classify eng (wn_fc wnet) p
     } \<and>
   (Network_init shape_engine initialize cfg t = (Inr net, t') \<and> 1 \<le> B \<and> 1 \<le> H \<and> 1 \<le> W \<longrightarrow>
      Conv2d_forward shape_engine [''conv''] (net_conv (Network_eval net))
        [B, dataset_n_channels cfg, H, W] = Some [B, config_n_channels cfg ! 0, H, W] \<and>
      Sequential_forward (block_forward shape_engine) [''stage1''] (net_stage1 (Network_eval net))
        [B, config_n_channels cfg ! 0, H, W] = Some [B, config_n_channels cfg ! 0, H, W] \<and>
      Sequential_forward (block_forward shape_engine) [''stage2''] (net_stage2 (Network_eval net))
        [B, config_n_channels cfg ! 0, H, W] =
        Some [B, config_n_channels cfg ! 1, reduced H 2, reduced W 2] \<and>
      Sequential_forward (block_forward shape_engine) [''stage3''] (net_stage3 (Network_eval net))
        [B, config_n_channels cfg ! 1, reduced H 2, reduced W 2] =
        Some [B, config_n_channels cfg ! 2, reduced (reduced H 2) 2, reduced (reduced W 2) 2] \<and>
      forward_conv shape_engine (net_conv (Network_eval net)) (net_stage1 (Network_eval net))
        (net_stage2 (Network_eval net)) (net_stage3 (Network_eval net))
        (net_bn (Network_eval net)) [B, dataset_n_channels cfg, H, W] =
        Some [B, config_n_channels cfg ! 2, 1, 1] \<and>
      fst (Network_forward shape_engine (Network_eval net) [B, dataset_n_channels cfg, H, W] u) =
        Some [B, dataset_n_classes cfg] \<and>
      fst (Network_forward shape_engine net [B, dataset_n_channels cfg, H, W] u) =
        (if B = 1 \<and> H \<le> 4 \<and> W \<le> 4 then None else Some [B, dataset_n_classes cfg])) \<and>
   (WrnNetwork_init shape_engine initialize wcfg t = (Inr wnet, t'') \<and>
      1 \<le> B \<and> 1 \<le> H \<and> 1 \<le> W \<longrightarrow>
      Conv2d_forward shape_engine [''conv''] (wn_conv (WrnNetwork_eval wnet))
        [B, wrn_dataset_n_channels wcfg, H, W] = Some [B, wrn_config_n_channels wcfg ! 0, H, W] \<and>
      Sequential_forward (WrnBlock_forward shape_engine) [''stage1'']
        (wn_stage1 (WrnNetwork_eval wnet)) [B, wrn_config_n_channels wcfg ! 0, H, W] =
        Some [B, wrn_config_n_channels wcfg ! 1, H, W] \<and>
      Sequential_forward (WrnBlock_forward shape_engine) [''stage2'']
        (wn_stage2 (WrnNetwork_eval wnet)) [B, wrn_config_n_channels wcfg ! 1, H, W] =
        Some [B, wrn_config_n_channels wcfg ! 2, reduced H 2, reduced W 2] \<and>
      Sequential_forward (WrnBlock_forward shape_engine) [''stage3'']
        (wn_stage3 (WrnNetwork_eval wnet))
        [B, wrn_config_n_channels wcfg ! 2, reduced H 2, reduced W 2] =
        Some [B, wrn_config_n_channels wcfg ! 3, reduced (reduced H 2) 2,
              reduced (reduced W 2) 2] \<and>
      wrn_forward_conv shape_engine (wn_conv (WrnNetwork_eval wnet))
        (wn_stage1 (WrnNetwork_eval wnet)) (wn_stage2 (WrnNetwork_eval wnet))
        (wn_stage3 (WrnNetwork_eval wnet)) (wn_bn (WrnNetwork_eval wnet))
        [B, wrn_dataset_n_channels wcfg, H, W] = Some [B, wrn_config_n_channels wcfg ! 3, 1, 1] \<and>
      fst (WrnNetwork_forward shape_engine (WrnNetwork_eval wnet)
             [B, wrn_dataset_n_channels wcfg, H, W] u) = Some [B, wrn_dataset_n_classes wcfg] \<and>
      fst (WrnNetwork_forward shape_engine wnet [B, wrn_dataset_n_channels wcfg, H, W] u) =
        (if B = 1 \<and> H \<le> 4 \<and> W \<le> 4 then None
         else Some [B, wrn_dataset_n_classes wcfg]))"
proof -
  have r: "Network_init shape_engine initialize cfg t = (Inr net, t') \<and> 1 \<le> B \<and> 1 \<le> H \<and> 1 \<le> W \<longrightarrow>
      Conv2d_forward shape_engine [''conv''] (net_conv (Network_eval net))
        [B, dataset_n_channels cfg, H, W] = Some [B, config_n_channels cfg ! 0, H, W] \<and>
      Sequential_forward (block_forward shape_engine) [''stage1''] (net_stage1 (Network_eval net))
        [B, config_n_channels cfg ! 0, H, W] = Some [B, config_n_channels cfg ! 0, H, W] \<and>
      Sequential_forward (block_forward shape_engine) [''stage2''] (net_stage2 (Network_eval net))
        [B, config_n_channels cfg ! 0, H, W] =
        Some [B, config_n_channels cfg ! 1, reduced H 2, reduced W 2] \<and>
      Sequential_forward (block_forward shape_engine) [''stage3''] (net_stage3 (Network_eval net))
        [B, config_n_channels cfg ! 1, reduced H 2, reduced W 2] =
        Some [B, config_n_channels cfg ! 2, reduced (reduced H 2) 2, reduced (reduced W 2) 2] \<and>
      forward_conv shape_engine (net_conv (Network_eval net)) (net_stage1 (Network_eval net))
        (net_stage2 (Network_eval net)) (net_stage3 (Network_eval net))
        (net_bn (Network_eval net)) [B, dataset_n_channels cfg, H, W] =
        Some [B, config_n_channels cfg ! 2, 1, 1] \<and>
      fst (Network_forward shape_engine (Network_eval net) [B, dataset_n_channels cfg, H, W] u) =
        Some [B, dataset_n_classes cfg] \<and>
      fst (Network_forward shape_engine net [B, dataset_n_channels cfg, H, W] u) =
        (if B = 1 \<and> H \<le> 4 \<and> W \<le> 4 then None else Some [B, dataset_n_classes cfg])"
    unfolding config_n_channels_def block_class_of_def
    using resnet_forward_shape [of initialize cfg t net t' B H W u] by blast
  have w: "WrnNetwork_init shape_engine initialize wcfg t = (Inr wnet, t'') \<and>
      1 \<le> B \<and> 1 \<le> H \<and> 1 \<le> W \<longrightarrow>
      Conv2d_forward shape_engine [''conv''] (wn_conv (WrnNetwork_eval wnet))
        [B, wrn_dataset_n_channels wcfg, H, W] = Some [B, wrn_config_n_channels wcfg ! 0, H, W] \<and>
      Sequential_forward (WrnBlock_forward shape_engine) [''stage1'']
        (wn_stage1 (WrnNetwork_eval wnet)) [B, wrn_config_n_channels wcfg ! 0, H, W] =
        Some [B, wrn_config_n_channels wcfg ! 1, H, W] \<and>
      Sequential_forward (WrnBlock_forward shape_engine) [''stage2'']
        (wn_stage2 (WrnNetwork_eval wnet)) [B, wrn_config_n_channels wcfg ! 1, H, W] =
        Some [B, wrn_config_n_channels wcfg ! 2, reduced H 2, reduced W 2] \<and>
      Sequential_forward (WrnBlock_forward shape_engine) [''stage3'']
        (wn_stage3 (WrnNetwork_eval wnet))
        [B, wrn_config_n_channels wcfg ! 2, reduced H 2, reduced W 2] =
        Some [B, wrn_config_n_channels wcfg ! 3, reduced (reduced H 2) 2,
              reduced (reduced W 2) 2] \<and>
      wrn_forward_conv shape_engine (wn_conv (WrnNetwork_eval wnet))
        (wn_stage1 (WrnNetwork_eval wnet)) (wn_stage2 (WrnNetwork_eval wnet))
        (wn_stage3 (WrnNetwork_eval wnet)) (wn_bn (WrnNetwork_eval wnet))
        [B, wrn_dataset_n_channels wcfg, H, W] = Some [B, wrn_config_n_channels wcfg ! 3, 1, 1] \<and>
      fst (WrnNetwork_forward shape_engine (WrnNetwork_eval wnet)
             [B, wrn_dataset_n_channels wcfg, H, W] u) = Some [B, wrn_dataset_n_classes wcfg] \<and>
      fst (WrnNetwork_forward shape_engine wnet [B, wrn_dataset_n_channels wcfg, H, W] u) =
        (if B = 1 \<and> H \<le> 4 \<and> W \<le> 4 then None
         else Some [B, wrn_dataset_n_classes wcfg])"
    unfolding wrn_config_n_channels_def
    using wrn_forward_shape [of initialize wcfg t wnet t'' B H W u] by blast
  show ?thesis
    apply (rule conjI)
     apply (rule forward_in_order)
    apply (rule conjI)
     apply (rule wrn_forward_in_order)
    apply (rule conjI)
     apply (rule r)
    apply (rule w)
    done
qed

text \<open>
  Networks constructed for 32x32 images, as they were built, map a batch of 7 images of
  5x9 pixels to shape \<open>(7, 10)\<close> and a batch of 2 images of 32x32 pixels to
  \<open>(2, 10)\<close>; in inference mode they map one image of 4x4 pixels to \<open>(1, 10)\<close>.
\<close>

theorem forward_returns_batch_by_classes_witness:
  "(\<exists>net s'. Network_init shape_engine (\<lambda>_. None) (cifar_config ''basic'' 20) fresh_state =
        (Inr net, s') \<and>
      fst (Network_forward shape_engine net [7, 3, 5, 9] fresh_state) = Some [7, 10] \<and>
      fst (Network_forward shape_engine (Network_eval net) [1, 3, 4, 4] fresh_state) =
        Some [1, 10]) \<and>
   (\<exists>net s'. WrnNetwork_init shape_engine (\<lambda>_. None) (cifar_wrn_config 10) fresh_state =
        (Inr net, s') \<and>
      fst (WrnNetwork_forward shape_engine net [2, 3, 32, 32] fresh_state) = Some [2, 10] \<and>
      fst (WrnNetwork_forward shape_engine (WrnNetwork_eval net) [1, 3, 4, 4] fresh_state) =
        Some [1, 10])"
proof -
  let ?c = "cifar_config ''basic'' 20" and ?w = "cifar_wrn_config 10"
  from cifar_basic_20_constructs obtain net s' where
    init: "Network_init shape_engine (\<lambda>_. None) ?c fresh_state = (Inr net, s')" by blast
  from cifar_wrn_10_constructs obtain wnet t' where
    winit: "WrnNetwork_init shape_engine (\<lambda>_. None) ?w fresh_state = (Inr wnet, t')" by blast
  have pre: "Network_init shape_engine (\<lambda>_. None) ?c fresh_state = (Inr net, s') \<and>
      (1::int) \<le> 7 \<and> (1::int) \<le> 5 \<and> (1::int) \<le> 9"
    using init by simp
  have pre1: "Network_init shape_engine (\<lambda>_. None) ?c fresh_state = (Inr net, s') \<and>
      (1::int) \<le> 1 \<and> (1::int) \<le> 4 \<and> (1::int) \<le> 4"
    using init by simp
  have wpre: "WrnNetwork_init shape_engine (\<lambda>_. None) ?w fresh_state = (Inr wnet, t') \<and>
      (1::int) \<le> 2 \<and> (1::int) \<le> 32 \<and> (1::int) \<le> 32"
    using winit by simp
  have wpre1: "WrnNetwork_init shape_engine (\<lambda>_. None) ?w fresh_state = (Inr wnet, t') \<and>
      (1::int) \<le> 1 \<and> (1::int) \<le> 4 \<and> (1::int) \<le> 4"
    using winit by simp
  note r = forward_returns_batch_by_classes
    [where cfg = ?c and initialize = "\<lambda>_. None" and t = fresh_state and net = net and t' = s'
       and B = 7 and H = 5 and W = 9 and u = fresh_state,
     THEN conjunct2, THEN conjunct2, THEN conjunct1, rule_format, OF pre]
  note r1 = forward_returns_batch_by_classes
    [where cfg = ?c and initialize = "\<lambda>_. None" and t = fresh_state and net = net and t' = s'
       and B = 1 and H = 4 and W = 4 and u = fresh_state,
     THEN conjunct2, THEN conjunct2, THEN conjunct1, rule_format, OF pre1]
  note w = forward_returns_batch_by_classes
    [where wcfg = ?w and initialize = "\<lambda>_. None" and t = fresh_state and wnet = wnet
       and t'' = t' and B = 2 and H = 32 and W = 32 and u = fresh_state,
     THEN conjunct2, THEN conjunct2, THEN conjunct2, rule_format, OF wpre]
  note w1 = forward_returns_batch_by_classes
    [where wcfg = ?w and initialize = "\<lambda>_. None" and t = fresh_state and wnet = wnet
       and t'' = t' and B = 1 and H = 4 and W = 4 and u = fresh_state,
     THEN conjunct2, THEN conjunct2, THEN conjunct2, rule_format, OF wpre1]
  have c: "dataset_n_channels ?c = 3" "dataset_n_classes ?c = 10"
    "wrn_dataset_n_channels ?w = 3" "wrn_dataset_n_classes ?w = 10"
    by (simp_all add: cifar_config_def cifar_wrn_config_def)
  from r have a: "fst (Network_forward shape_engine net [7, 3, 5, 9] fresh_state) = Some [7, 10]"
    unfolding c by simp
  from r1 have a1: "fst (Network_forward shape_engine (Network_eval net) [1, 3, 4, 4]
      fresh_state) = Some [1, 10]"
    unfolding c by (elim conjE)
  from w have b: "fst (WrnNetwork_forward shape_engine wnet [2, 3, 32, 32] fresh_state) =
      Some [2, 10]"
    unfolding c by simp
  from w1 have b1: "fst (WrnNetwork_forward shape_engine (WrnNetwork_eval wnet) [1, 3, 4, 4]
      fresh_state) = Some [1, 10]"
    unfolding c by (elim conjE)
  from a a1 b b1 init winit show ?thesis by blast
qed

end
